theory Spec2Isabelle
  imports Main "HOL-Library.Word"
begin

unbundle bit_operations_syntax

section \<open>Data model of drivers/soc/qcom/ramdump.c\<close>

text \<open>
  The driver runs on a 64-bit kernel: \<open>unsigned long\<close>, \<open>size_t\<close>, \<open>loff_t\<close> and
  pointers are 64-bit words, \<open>unsigned int\<close> is a 32-bit word. A \<open>NULL\<close> pointer to
  memory is the word 0; a \<open>NULL\<close> pointer to a value of the model is \<open>None\<close>.
\<close>

type_synonym u8 = "8 word"
type_synonym u32 = "32 word"
type_synonym u64 = "64 word"

text \<open>
  Modelled from the spec: \<open>struct ramdump_segment\<close> is declared in
  \<open>soc/qcom/ramdump.h\<close>, which is not among the sources. The spec gives a segment as
  an address and a size of 64 bits, an optional name and an optional mapped pointer; the
  code reads the fields \<open>name\<close>, \<open>address\<close>, \<open>v_address\<close> and \<open>size\<close>
  (\<open>size_seg\<close> here: \<open>size\<close> is a constant of HOL).
\<close>

record ramdump_segment =
  name :: "string option"
  address :: u64
  v_address :: u64
  size_seg :: u64

text \<open>
  \<open>struct consumer_entry\<close>. An entry is identified by the address \<open>kzalloc\<close> gave
  it (\<open>entry_id\<close>); \<open>filep->private_data\<close> holds that address.
\<close>

record consumer_entry =
  entry_id :: nat
  data_ready :: bool

text \<open>
  \<open>struct ramdump_device\<close>. The pair \<open>segments\<close>/\<open>nsegments\<close> is the list
  \<open>segments\<close> (\<open>nsegments\<close> is its length, \<open>None\<close> the \<open>NULL\<close> table of a
  fresh device); \<open>ramdump_complete\<close> is the completion's count of \<open>complete()\<close>
  calls not yet consumed; \<open>readers_left\<close> is the value of the atomic counter. The
  lock, the wait queue, the SRCU domain and the character device carry no data.
\<close>

record ramdump_device =
  consumers :: u32
  readers_left :: int
  ramdump_status :: int
  ramdump_complete :: nat
  consumer_list :: "consumer_entry list"
  segments :: "ramdump_segment list option"
  elfcore_size :: u64
  elfcore_buf :: "u8 list option"
  attrs :: u64
  complete_ramdump :: bool
  abort_ramdump :: bool

text \<open>The error numbers of the kernel headers.\<close>

definition EPIPE :: int where "EPIPE = 32"
definition ENOMEM :: int where "ENOMEM = 12"
definition EAGAIN :: int where "EAGAIN = 11"
definition EFAULT :: int where "EFAULT = 14"
definition ETIME :: int where "ETIME = 62"
definition ERESTARTSYS :: int where "ERESTARTSYS = 512"

section \<open>Consumers: open, release, reset\<close>

text \<open>
  \<open>ramdump_open\<close>: the second argument is the result of \<open>kzalloc\<close> (\<open>None\<close> when
  the allocation fails). The new entry is zero-filled, so its \<open>data_ready\<close> is false.
\<close>

definition ramdump_open :: "ramdump_device \<Rightarrow> nat option \<Rightarrow> int \<times> ramdump_device" where
  "ramdump_open rd_dev entry =
     (case entry of
        None \<Rightarrow> (- ENOMEM, rd_dev)
      | Some p \<Rightarrow>
          (0, rd_dev\<lparr>consumers := consumers rd_dev + 1,
                     ramdump_status := 0,
                     consumer_list := consumer_list rd_dev @ [\<lparr>entry_id = p, data_ready = False\<rparr>]\<rparr>))"

definition entry_ready :: "ramdump_device \<Rightarrow> nat \<Rightarrow> bool" where
  "entry_ready rd_dev p = list_ex (\<lambda>e. entry_id e = p \<and> data_ready e) (consumer_list rd_dev)"

definition clear_ready :: "nat \<Rightarrow> consumer_entry \<Rightarrow> consumer_entry" where
  "clear_ready p e = (if entry_id e = p then e\<lparr>data_ready := False\<rparr> else e)"

text \<open>
  \<open>reset_ramdump_entry\<close>: clears the entry's flag, decrements the atomic counter, and
  completes the producer's wait when the counter reaches zero.
\<close>

definition reset_ramdump_entry :: "nat \<Rightarrow> ramdump_device \<Rightarrow> ramdump_device" where
  "reset_ramdump_entry p rd_dev =
     (let d1 = rd_dev\<lparr>consumer_list := map (clear_ready p) (consumer_list rd_dev)\<rparr>;
          d2 = d1\<lparr>readers_left := readers_left d1 - 1\<rparr>
      in if readers_left d2 = 0 then d2\<lparr>ramdump_complete := ramdump_complete d2 + 1\<rparr> else d2)"

definition ramdump_release :: "ramdump_device \<Rightarrow> nat \<Rightarrow> int \<times> ramdump_device" where
  "ramdump_release rd_dev p =
     (let d1 = (if entry_ready rd_dev p then reset_ramdump_entry p rd_dev else rd_dev)
      in (0, d1\<lparr>consumers := consumers d1 - 1,
                 consumer_list := filter (\<lambda>e. entry_id e \<noteq> p) (consumer_list d1)\<rparr>))"

section \<open>Offset translation\<close>

text \<open>
  The \<open>for\<close> loop of \<open>offset_translate\<close>: it returns the index at which it stops and
  what is left of the offset. The comparison is unsigned, as in C where a \<open>loff_t\<close>
  meets an \<open>unsigned long\<close>.
\<close>

function offset_translate_loop :: "ramdump_segment list \<Rightarrow> nat \<Rightarrow> u64 \<Rightarrow> nat \<times> u64" where
  "offset_translate_loop segs i user_offset =
     (if i < length segs then
        (if size_seg (segs ! i) \<le> user_offset
         then offset_translate_loop segs (i + 1) (user_offset - size_seg (segs ! i))
         else (i, user_offset))
      else (i, user_offset))"
  by pat_completeness auto
termination
  by (relation "measure (\<lambda>(segs, i, user_offset). length segs - i)") auto

declare offset_translate_loop.simps [simp del]

definition seg_table :: "ramdump_device \<Rightarrow> ramdump_segment list" where
  "seg_table rd_dev = (case segments rd_dev of None \<Rightarrow> [] | Some segs \<Rightarrow> segs)"

text \<open>
  \<open>offset_translate\<close> returns the physical address; \<open>data_left\<close> and \<open>vaddr\<close> are its
  out-parameters. The result is (address, data_left, vaddr).
\<close>

definition offset_translate :: "u64 \<Rightarrow> ramdump_device \<Rightarrow> u64 \<times> u64 \<times> u64" where
  "offset_translate user_offset rd_dev =
     (let segs = seg_table rd_dev;
          (i, off) = offset_translate_loop segs 0 user_offset
      in if i = length segs then (0, 0, 0)
         else (address (segs ! i) + off,
               size_seg (segs ! i) - off,
               (if v_address (segs ! i) \<noteq> 0 then v_address (segs ! i) + off else 0)))"

section \<open>The copy out of device memory\<close>

datatype fault = Sleeps | BufferOverrun | NullDeref

text \<open>\<open>mem_bytes m p k\<close>: the \<open>k\<close> bytes of the memory \<open>m\<close> from the pointer \<open>p\<close> on.\<close>

definition mem_bytes :: "(u64 \<Rightarrow> u8) \<Rightarrow> u64 \<Rightarrow> nat \<Rightarrow> u8 list" where
  "mem_bytes m p k = map (\<lambda>i. m (p + of_nat i)) [0..<k]"

text \<open>
  \<open>memcpy\<close> and \<open>memcpy_fromio\<close> into the buffer \<open>buf\<close> (an allocation of
  \<open>length buf\<close> bytes) at offset \<open>off\<close>, of \<open>n\<close> bytes from the pointer \<open>src\<close>. A
  write that leaves the allocation is the fault \<open>BufferOverrun\<close>.
\<close>

definition memcpy_to :: "u8 list \<Rightarrow> nat \<Rightarrow> (u64 \<Rightarrow> u8) \<Rightarrow> u64 \<Rightarrow> u64 \<Rightarrow> fault + u8 list" where
  "memcpy_to buf off m src n =
     (if off + unat n \<le> length buf
      then Inr (take off buf @ mem_bytes m src (unat n) @ drop (off + unat n) buf)
      else Inl BufferOverrun)"

text \<open>
  Lines 233 to 259 of \<open>ramdump_read\<close>: \<open>vzalloc(copy_size)\<close> gives a zero-filled
  buffer; the leading bytes up to the next 8-byte boundary of \<open>device_mem\<close>, the
  middle and the trailing bytes are copied in turn. \<open>alignbuf\<close> is the offset into
  \<open>finalbuf\<close>; \<open>alignsize\<close> is a \<open>size_t\<close> and wraps around.
\<close>

definition copy_leading :: "(u64 \<Rightarrow> u8) \<Rightarrow> u64 \<Rightarrow> u64 \<Rightarrow> (fault + u8 list) \<times> u64 \<times> nat \<times> u64" where
  "copy_leading m device_mem copy_size =
     (let finalbuf = replicate (unat copy_size) 0 in
      if device_mem AND 7 \<noteq> 0 then
        (let bytes_before = 8 - (device_mem AND 7)
         in (memcpy_to finalbuf 0 m device_mem bytes_before,
             device_mem + bytes_before, unat bytes_before, copy_size - bytes_before))
      else (Inr finalbuf, device_mem, 0, copy_size))"

definition copy_rest :: "(u64 \<Rightarrow> u8) \<Rightarrow> u8 list \<Rightarrow> u64 \<Rightarrow> nat \<Rightarrow> u64 \<Rightarrow> fault + u8 list" where
  "copy_rest m buf device_mem alignbuf alignsize =
     (if alignsize AND 7 \<noteq> 0 then
        (let bytes_after = alignsize AND 7 in
         case memcpy_to buf alignbuf m device_mem (alignsize - bytes_after) of
           Inl f \<Rightarrow> Inl f
         | Inr buf' \<Rightarrow>
             memcpy_to buf' (alignbuf + unat (alignsize - bytes_after)) m
               (device_mem + (alignsize - bytes_after)) bytes_after)
      else memcpy_to buf alignbuf m device_mem alignsize)"

definition copy_from_device :: "(u64 \<Rightarrow> u8) \<Rightarrow> u64 \<Rightarrow> u64 \<Rightarrow> fault + u8 list" where
  "copy_from_device m device_mem copy_size =
     (case copy_leading m device_mem copy_size of
        (Inl f, _) \<Rightarrow> Inl f
      | (Inr buf, device_mem', alignbuf, alignsize) \<Rightarrow> copy_rest m buf device_mem' alignbuf alignsize)"

section \<open>Reading\<close>

text \<open>
  What a call of \<open>ramdump_read\<close> meets outside the device: whether a signal ends the
  wait, the mapping \<open>dma_remap\<close> gives for a physical address and a size (0 when it
  fails), the memory behind the kernel pointers, whether \<open>vzalloc\<close> of a size
  succeeds, and whether the two \<open>copy_to_user\<close> calls fail.
  \<open>DMA_ATTR_SKIP_ZEROING\<close> is declared outside the sources.
\<close>

record read_env =
  signal_pending :: bool
  dma_remap :: "u64 \<Rightarrow> u64 \<Rightarrow> u64"
  mem :: "u64 \<Rightarrow> u8"
  vzalloc_ok :: "u64 \<Rightarrow> bool"
  hdr_fault :: bool
  data_fault :: bool
  DMA_ATTR_SKIP_ZEROING :: u64

text \<open>
  The result of a call that returns: the return value, the device, \<open>*pos\<close>, and the
  bytes the call has put into the caller's buffer, from its start.
\<close>

record read_result =
  ret :: int
  dev_after :: ramdump_device
  pos_after :: u64
  user_buf :: "u8 list"

text \<open>\<open>MAX_IOREMAP_SIZE\<close> is \<open>SZ_1M\<close> of \<open>linux/sizes.h\<close>, the spec's 1 MiB.\<close>

definition MAX_IOREMAP_SIZE :: u64 where
  "MAX_IOREMAP_SIZE = 0x100000"

text \<open>The label \<open>ramdump_done\<close>: \<open>*pos = 0\<close>, the entry is reset, \<open>ret\<close> is returned.\<close>

definition ramdump_done :: "ramdump_device \<Rightarrow> nat \<Rightarrow> int \<Rightarrow> u8 list \<Rightarrow> read_result" where
  "ramdump_done rd_dev entry r out =
     \<lparr>ret = r, dev_after = reset_ramdump_entry entry rd_dev, pos_after = 0, user_buf = out\<rparr>"

text \<open>
  \<open>ramdump_read\<close> from the call of \<open>offset_translate\<close> on (line 204). \<open>out\<close> is what
  the header copy has already put into the caller's buffer.
\<close>

definition read_segment ::
  "read_env \<Rightarrow> ramdump_device \<Rightarrow> nat \<Rightarrow> u64 \<Rightarrow> u64 \<Rightarrow> u64 \<Rightarrow> u8 list \<Rightarrow> fault + read_result" where
  "read_segment env rd_dev entry count pos orig_pos out =
     (case offset_translate (pos - elfcore_size rd_dev) rd_dev of
        (addr, data_left, vaddr) \<Rightarrow>
          if data_left = 0 then Inr (ramdump_done (rd_dev\<lparr>ramdump_status := 0\<rparr>) entry 0 out)
          else
            (let copy_size = min (min count MAX_IOREMAP_SIZE) data_left;
                 d1 = rd_dev\<lparr>attrs := DMA_ATTR_SKIP_ZEROING env\<rparr>;
                 device_mem = (if vaddr \<noteq> 0 then vaddr else dma_remap env addr copy_size)
             in if device_mem = 0
                then Inr (ramdump_done (d1\<lparr>ramdump_status := - 1\<rparr>) entry (- ENOMEM) out)
                else if \<not> vzalloc_ok env copy_size
                then Inr (ramdump_done (d1\<lparr>ramdump_status := - 1\<rparr>) entry (- ENOMEM) out)
                else
                  (case copy_from_device (mem env) device_mem copy_size of
                     Inl f \<Rightarrow> Inl f
                   | Inr finalbuf \<Rightarrow>
                       if data_fault env
                       then Inr (ramdump_done (d1\<lparr>ramdump_status := - 1\<rparr>) entry (- EFAULT) out)
                       else Inr \<lparr>ret = sint (pos + copy_size - orig_pos), dev_after = d1,
                                 pos_after = pos + copy_size, user_buf = out @ finalbuf\<rparr>)))"

text \<open>
  The source of the header's \<open>copy_to_user\<close>: \<open>copy_size\<close> bytes from
  \<open>elfcore_buf + *pos\<close>. A copy of no bytes reads nothing; any other copy out of a
  \<open>NULL\<close> buffer has no source (\<open>None\<close>).
\<close>

definition header_bytes :: "ramdump_device \<Rightarrow> u64 \<Rightarrow> u64 \<Rightarrow> u8 list option" where
  "header_bytes rd_dev pos copy_size =
     (case elfcore_buf rd_dev of
        None \<Rightarrow> (if copy_size = 0 then Some [] else None)
      | Some hdr \<Rightarrow> Some (take (unat copy_size) (drop (unat pos) hdr)))"

text \<open>
  \<open>ramdump_read\<close>. A call that would sleep in \<open>wait_event_interruptible\<close> with no
  signal pending does not return in this state of the device: the outcome \<open>Sleeps\<close>.
  A header copy that has no source is the fault \<open>NullDeref\<close>.
\<close>

definition ramdump_read ::
  "read_env \<Rightarrow> ramdump_device \<Rightarrow> nat \<Rightarrow> bool \<Rightarrow> u64 \<Rightarrow> u64 \<Rightarrow> fault + read_result" where
  "ramdump_read env rd_dev entry nonblock count pos =
     (if nonblock \<and> \<not> entry_ready rd_dev entry
      then Inr \<lparr>ret = - EAGAIN, dev_after = rd_dev, pos_after = pos, user_buf = []\<rparr>
      else if \<not> entry_ready rd_dev entry \<and> \<not> abort_ramdump rd_dev
      then (if signal_pending env
            then Inr \<lparr>ret = - ERESTARTSYS, dev_after = rd_dev, pos_after = pos, user_buf = []\<rparr>
            else Inl Sleeps)
      else if abort_ramdump rd_dev
      then Inr (ramdump_done (rd_dev\<lparr>ramdump_status := - 1\<rparr>) entry (- ETIME) [])
      else if pos < elfcore_size rd_dev
      then
        (let copy_size = min (elfcore_size rd_dev - pos) count in
         case header_bytes rd_dev pos copy_size of
           None \<Rightarrow> Inl NullDeref
         | Some out \<Rightarrow>
             if hdr_fault env then Inr (ramdump_done rd_dev entry (- EFAULT) [])
             else if count - copy_size = 0
             then Inr \<lparr>ret = sint copy_size, dev_after = rd_dev,
                       pos_after = pos + copy_size, user_buf = out\<rparr>
             else read_segment env rd_dev entry (count - copy_size) (pos + copy_size) pos out)
      else read_segment env rd_dev entry count pos pos [])"

section \<open>The file operations\<close>

text \<open>
  \<open>ramdump_poll\<close>: the mask is \<open>POLLIN | POLLRDNORM\<close> when the entry's data is ready;
  the device is not changed. The two bits are those of \<open>asm-generic/poll.h\<close>.
\<close>

definition POLLIN :: u32 where "POLLIN = 0x0001"
definition POLLRDNORM :: u32 where "POLLRDNORM = 0x0040"

definition ramdump_poll :: "ramdump_device \<Rightarrow> nat \<Rightarrow> u32" where
  "ramdump_poll rd_dev p = (if entry_ready rd_dev p then POLLIN OR POLLRDNORM else 0)"




section \<open>Core headers\<close>

text \<open>
  The ELF structures and constants of \<open>linux/elf.h\<close>. \<open>'w\<close> is the type of an
  address: \<open>Elf32_Ehdr\<close> is \<open>u32 elfhdr\<close>, and \<open>struct elfhdr\<close> of the 64-bit kernel
  is \<open>u64 elfhdr\<close>. A header is written into zero-filled memory (\<open>kzalloc\<close>), so a
  field the code does not assign is 0.
\<close>

record 'w elfhdr =
  e_ident :: "u8 list"
  e_type :: "16 word"
  e_machine :: "16 word"
  e_version :: u32
  e_entry :: 'w
  e_phoff :: 'w
  e_shoff :: 'w
  e_flags :: u32
  e_ehsize :: "16 word"
  e_phentsize :: "16 word"
  e_phnum :: "16 word"
  e_shentsize :: "16 word"
  e_shnum :: "16 word"
  e_shstrndx :: "16 word"

record elf32_phdr =
  p_type :: u32
  p_offset :: u32
  p_vaddr :: u32
  p_paddr :: u32
  p_filesz :: u32
  p_memsz :: u32
  p_flags :: u32
  p_align :: u32

record elf_shdr =
  sh_name :: u32
  sh_type :: u32
  sh_flags :: u64
  sh_addr :: u64
  sh_offset :: u64
  sh_size :: u64
  sh_link :: u32
  sh_info :: u32
  sh_addralign :: u64
  sh_entsize :: u64

definition ELFMAG :: "u8 list" where "ELFMAG = [0x7f, 0x45, 0x4c, 0x46]"
definition ELFCLASS32 :: u8 where "ELFCLASS32 = 1"
definition ELFCLASS64 :: u8 where "ELFCLASS64 = 2"
definition ELFDATA2LSB :: u8 where "ELFDATA2LSB = 1"
definition ELFOSABI_NONE :: u8 where "ELFOSABI_NONE = 0"
definition EV_CURRENT :: nat where "EV_CURRENT = 1"
definition ET_CORE :: "16 word" where "ET_CORE = 4"
definition EM_AARCH64 :: "16 word" where "EM_AARCH64 = 183"
definition PT_LOAD :: u32 where "PT_LOAD = 1"
definition PF_R :: u32 where "PF_R = 4"
definition PF_W :: u32 where "PF_W = 2"
definition PF_X :: u32 where "PF_X = 1"
definition SHT_PROGBITS :: u32 where "SHT_PROGBITS = 1"
definition SHT_STRTAB :: u32 where "SHT_STRTAB = 3"
definition SHF_WRITE :: u64 where "SHF_WRITE = 1"
definition MAX_STRTBL_SIZE :: nat where "MAX_STRTBL_SIZE = 512"
definition MAX_NAME_LENGTH :: nat where "MAX_NAME_LENGTH = 16"

text \<open>\<open>sizeof\<close> of the four structures.\<close>

definition sizeof_Elf32_Ehdr :: nat where "sizeof_Elf32_Ehdr = 52"
definition sizeof_Elf32_Phdr :: nat where "sizeof_Elf32_Phdr = 32"
definition sizeof_elfhdr :: nat where "sizeof_elfhdr = 64"
definition sizeof_elf_shdr :: nat where "sizeof_elf_shdr = 64"

text \<open>The memory image of the structures, little-endian.\<close>

definition le_bytes :: "nat \<Rightarrow> 'a::len word \<Rightarrow> u8 list" where
  "le_bytes n w = map (\<lambda>k. ucast (drop_bit (8 * k) w)) [0..<n]"

definition elfhdr_bytes :: "('a::len) word elfhdr \<Rightarrow> u8 list" where
  "elfhdr_bytes h =
     e_ident h @ le_bytes 2 (e_type h) @ le_bytes 2 (e_machine h) @ le_bytes 4 (e_version h)
     @ le_bytes (LENGTH('a) div 8) (e_entry h) @ le_bytes (LENGTH('a) div 8) (e_phoff h)
     @ le_bytes (LENGTH('a) div 8) (e_shoff h) @ le_bytes 4 (e_flags h)
     @ le_bytes 2 (e_ehsize h) @ le_bytes 2 (e_phentsize h) @ le_bytes 2 (e_phnum h)
     @ le_bytes 2 (e_shentsize h) @ le_bytes 2 (e_shnum h) @ le_bytes 2 (e_shstrndx h)"

definition elf32_phdr_bytes :: "elf32_phdr \<Rightarrow> u8 list" where
  "elf32_phdr_bytes ph =
     le_bytes 4 (p_type ph) @ le_bytes 4 (p_offset ph) @ le_bytes 4 (p_vaddr ph)
     @ le_bytes 4 (p_paddr ph) @ le_bytes 4 (p_filesz ph) @ le_bytes 4 (p_memsz ph)
     @ le_bytes 4 (p_flags ph) @ le_bytes 4 (p_align ph)"

definition elf_shdr_bytes :: "elf_shdr \<Rightarrow> u8 list" where
  "elf_shdr_bytes sh =
     le_bytes 4 (sh_name sh) @ le_bytes 4 (sh_type sh) @ le_bytes 8 (sh_flags sh)
     @ le_bytes 8 (sh_addr sh) @ le_bytes 8 (sh_offset sh) @ le_bytes 8 (sh_size sh)
     @ le_bytes 4 (sh_link sh) @ le_bytes 4 (sh_info sh) @ le_bytes 8 (sh_addralign sh)
     @ le_bytes 8 (sh_entsize sh)"

definition zero_shdr :: elf_shdr where
  "zero_shdr = \<lparr>sh_name = 0, sh_type = 0, sh_flags = 0, sh_addr = 0, sh_offset = 0,
                 sh_size = 0, sh_link = 0, sh_info = 0, sh_addralign = 0, sh_entsize = 0\<rparr>"

subsection \<open>ELF32 core header\<close>

text \<open>
  The file header of \<open>_do_ramdump\<close> (lines 479 to 489); \<open>e_phnum\<close> is a 16-bit field.
\<close>

definition elf32_ehdr :: "nat \<Rightarrow> u32 elfhdr" where
  "elf32_ehdr nsegments =
     \<lparr>e_ident = ELFMAG @ [ELFCLASS32, ELFDATA2LSB, of_nat EV_CURRENT, ELFOSABI_NONE] @ replicate 8 0,
      e_type = ET_CORE, e_machine = 0, e_version = of_nat EV_CURRENT, e_entry = 0,
      e_phoff = of_nat sizeof_Elf32_Ehdr, e_shoff = 0, e_flags = 0,
      e_ehsize = of_nat sizeof_Elf32_Ehdr, e_phentsize = of_nat sizeof_Elf32_Phdr,
      e_phnum = of_nat nsegments, e_shentsize = 0, e_shnum = 0, e_shstrndx = 0\<rparr>"

text \<open>
  The loop of lines 493 to 500: one program header per segment, in order. The fields of
  \<open>Elf32_Phdr\<close> are 32 bits wide, so the 64-bit address, size and offset are cut to
  their low 32 bits on assignment; \<open>offset\<close> is an \<open>unsigned long\<close> and grows by the
  stored \<open>p_filesz\<close>.
\<close>

fun elf32_phdrs :: "ramdump_segment list \<Rightarrow> u64 \<Rightarrow> elf32_phdr list" where
  "elf32_phdrs [] offset = []"
| "elf32_phdrs (s # ss) offset =
     (let phdr = \<lparr>p_type = PT_LOAD, p_offset = ucast offset,
                   p_vaddr = ucast (address s), p_paddr = ucast (address s),
                   p_filesz = ucast (size_seg s), p_memsz = ucast (size_seg s),
                   p_flags = PF_R OR PF_W OR PF_X, p_align = 0\<rparr>
      in phdr # elf32_phdrs ss (offset + ucast (p_filesz phdr)))"

definition elf32_core_size :: "nat \<Rightarrow> u64" where
  "elf32_core_size nsegments = of_nat sizeof_Elf32_Ehdr + of_nat sizeof_Elf32_Phdr * of_nat nsegments"

definition elf32_core :: "ramdump_segment list \<Rightarrow> u8 list" where
  "elf32_core segs =
     elfhdr_bytes (elf32_ehdr (length segs))
     @ concat (map elf32_phdr_bytes (elf32_phdrs segs (elf32_core_size (length segs))))"

subsection \<open>Minidump header\<close>

text \<open>
  Writing \<open>bs\<close> into the buffer \<open>buf\<close> at offset \<open>off\<close>; leaving the allocation is
  the fault \<open>BufferOverrun\<close>.
\<close>

definition write_at :: "u8 list \<Rightarrow> nat \<Rightarrow> u8 list \<Rightarrow> fault + u8 list" where
  "write_at buf off bs =
     (if off + length bs \<le> length buf
      then Inr (take off buf @ bs @ drop (off + length bs) buf)
      else Inl BufferOverrun)"

text \<open>
  A name is a C string: its characters are those before the first NUL.
  \<open>strlcpy\<close> is the kernel library's (\<open>lib/string.c\<close>, not among the sources); it
  is modelled by its contract, that of BSD \<open>strlcpy\<close>: \<open>strlcpy(dest, src, size)\<close>
  copies at most \<open>size - 1\<close> characters and a terminating NUL, nothing when \<open>size\<close>
  is 0, and returns the length of \<open>src\<close>.
\<close>

definition c_chars :: "string \<Rightarrow> u8 list" where
  "c_chars s = map of_char (takeWhile (\<lambda>c. c \<noteq> CHR 0x00) s)"

definition strlcpy :: "u8 list \<Rightarrow> nat \<Rightarrow> string \<Rightarrow> nat \<Rightarrow> (fault + u8 list) \<times> nat" where
  "strlcpy buf off src sz =
     (let ret = length (c_chars src);
          len = (if sz \<le> ret then sz - 1 else ret)
      in (if sz = 0 then Inr buf else write_at buf off (take len (c_chars src) @ [0]), ret))"

text \<open>
  \<open>set_section_name\<close>. Modelled from the spec: \<open>elf_str_table\<close> is declared in
  \<open>soc/qcom/ramdump.h\<close>, which is not among the sources; by the spec the string
  table is the fixed 512-byte block that ends the header, so \<open>strtab\<close> is that block
  and is never \<open>NULL\<close>. The result is the table, the returned offset and the new
  \<open>*strtable_idx\<close>.
\<close>

definition set_section_name :: "string option \<Rightarrow> u8 list \<Rightarrow> nat \<Rightarrow> (fault + u8 list) \<times> u32 \<times> nat" where
  "set_section_name nm strtab strtable_idx =
     (case nm of
        None \<Rightarrow> (Inr strtab, 0, strtable_idx)
      | Some s \<Rightarrow>
          (case strlcpy strtab strtable_idx s MAX_NAME_LENGTH of
             (w, n) \<Rightarrow> (w, of_nat strtable_idx, strtable_idx + n + 1)))"

text \<open>
  Reading a name back: the C string that starts at offset \<open>off\<close> of the string table,
  as a reader of the section header's \<open>sh_name\<close> resolves it.
\<close>

definition c_string_at :: "u8 list \<Rightarrow> nat \<Rightarrow> u8 list" where
  "c_string_at strtab off = takeWhile (\<lambda>b. b \<noteq> 0) (drop off strtab)"

text \<open>The loop of lines 624 to 635: one section header per segment.\<close>

fun minidump_sections ::
  "ramdump_segment list \<Rightarrow> u64 \<Rightarrow> u8 list \<Rightarrow> nat \<Rightarrow> fault + (elf_shdr list \<times> u8 list)" where
  "minidump_sections [] offset strtab strtable_idx = Inr ([], strtab)"
| "minidump_sections (s # ss) offset strtab strtable_idx =
     (case set_section_name (name s) strtab strtable_idx of
        (Inl f, _) \<Rightarrow> Inl f
      | (Inr strtab', nm, idx') \<Rightarrow>
          (let shdr = zero_shdr\<lparr>sh_type := SHT_PROGBITS, sh_name := nm, sh_addr := address s,
                                 sh_size := size_seg s, sh_flags := SHF_WRITE,
                                 sh_offset := offset, sh_entsize := 0\<rparr>
           in case minidump_sections ss (offset + sh_size shdr) strtab' idx' of
                Inl f \<Rightarrow> Inl f
              | Inr (shdrs, strtab'') \<Rightarrow> Inr (shdr # shdrs, strtab'')))"

definition minidump_size :: "nat \<Rightarrow> u64" where
  "minidump_size nsegments =
     of_nat sizeof_elfhdr + of_nat sizeof_elf_shdr * (of_nat nsegments + 2) + of_nat MAX_STRTBL_SIZE"

definition minidump_ehdr :: "nat \<Rightarrow> u64 elfhdr" where
  "minidump_ehdr nsegments =
     \<lparr>e_ident = ELFMAG @ [ELFCLASS64, ELFDATA2LSB, of_nat EV_CURRENT, ELFOSABI_NONE] @ replicate 8 0,
      e_type = ET_CORE, e_machine = EM_AARCH64, e_version = of_nat EV_CURRENT, e_entry = 0,
      e_phoff = 0, e_shoff = of_nat sizeof_elfhdr, e_flags = 0,
      e_ehsize = of_nat sizeof_elfhdr, e_phentsize = 0, e_phnum = 0,
      e_shentsize = of_nat sizeof_elf_shdr, e_shnum = of_nat nsegments + 2, e_shstrndx = 1\<rparr>"

text \<open>
  Lines 598 to 636 of \<open>_do_minidump\<close>: the section headers (the null section, the
  string table section named \<open>STR_TBL\<close>, then the segments) and the string table.
  \<open>ELF_CLASS\<close>, \<open>ELF_DATA\<close>, \<open>ELF_OSABI\<close> and \<open>ELF_ARCH\<close> are those of arm64.
\<close>

definition minidump_tables :: "ramdump_segment list \<Rightarrow> fault + (elf_shdr list \<times> u8 list)" where
  "minidump_tables segs =
     (let strtbl_off = of_nat sizeof_elfhdr + of_nat sizeof_elf_shdr * (of_nat (length segs) + 2)
      in case set_section_name (Some ''STR_TBL'') (replicate MAX_STRTBL_SIZE 0) 1 of
           (Inl f, _) \<Rightarrow> Inl f
         | (Inr strtab, nm, idx) \<Rightarrow>
             (let strshdr = zero_shdr\<lparr>sh_type := SHT_STRTAB, sh_offset := strtbl_off,
                                       sh_size := of_nat MAX_STRTBL_SIZE, sh_entsize := 0,
                                       sh_flags := 0, sh_name := nm\<rparr>
              in case minidump_sections segs (minidump_size (length segs)) strtab idx of
                   Inl f \<Rightarrow> Inl f
                 | Inr (shdrs, strtab') \<Rightarrow> Inr (zero_shdr # strshdr # shdrs, strtab')))"

definition minidump_core :: "ramdump_segment list \<Rightarrow> fault + u8 list" where
  "minidump_core segs =
     (case minidump_tables segs of
        Inl f \<Rightarrow> Inl f
      | Inr (shdrs, strtab) \<Rightarrow>
          Inr (elfhdr_bytes (minidump_ehdr (length segs)) @ concat (map elf_shdr_bytes shdrs) @ strtab))"

section \<open>Dump requests\<close>

text \<open>
  What a dump request meets outside the device: whether \<open>kzalloc\<close> of the header
  succeeds; \<open>wait_for_completion_timeout\<close>, which gives the device as the consumers
  have left it when the wait ends and whether the completion was signalled (false: the
  wait timed out); and \<open>synchronize_srcu\<close>, which gives the device once the readers
  inside a read have left it.
\<close>

record dump_env =
  kzalloc_ok :: "u64 \<Rightarrow> bool"
  wait_for_completion_timeout :: "ramdump_device \<Rightarrow> ramdump_device \<times> bool"
  synchronize_srcu :: "ramdump_device \<Rightarrow> ramdump_device"

text \<open>The loop of lines 461 to 463, on the caller's array.\<close>

function compact_loop :: "ramdump_segment list \<Rightarrow> nat \<Rightarrow> ramdump_segment list" where
  "compact_loop segs i =
     (if i + 1 < length segs
      then compact_loop
             (segs[i := (segs ! i)\<lparr>size_seg := address (segs ! (i + 1)) - address (segs ! i)\<rparr>])
             (i + 1)
      else segs)"
  by pat_completeness auto
termination
  by (relation "measure (\<lambda>(segs, i). length segs - i)") auto

declare compact_loop.simps [simp del]

definition set_ready :: "consumer_entry \<Rightarrow> consumer_entry" where
  "set_ready e = e\<lparr>data_ready := True\<rparr>"

text \<open>
  Lines 503 to 534 of \<open>_do_ramdump\<close>, which are lines 638 to 669 of \<open>_do_minidump\<close>:
  the consumers are marked ready and counted, the producer waits, and the header is
  given back. The result is the return value and the device.
\<close>

definition ramdump_session :: "dump_env \<Rightarrow> ramdump_device \<Rightarrow> int \<times> ramdump_device" where
  "ramdump_session env rd_dev =
     (let d1 = rd_dev\<lparr>consumer_list := map set_ready (consumer_list rd_dev),
                      ramdump_status := - 1, abort_ramdump := False\<rparr>;
          d2 = d1\<lparr>ramdump_complete := 0, readers_left := sint (consumers d1)\<rparr>
      in case wait_for_completion_timeout env d2 of
           (d3, completed) \<Rightarrow>
             (case (if \<not> completed
                    then (- EPIPE, synchronize_srcu env (d3\<lparr>abort_ramdump := True\<rparr>))
                    else (if ramdump_status d3 = 0 then 0 else - EPIPE, d3)) of
                (r, d4) \<Rightarrow> (r, d4\<lparr>elfcore_size := 0, elfcore_buf := None\<rparr>)))"

text \<open>
  \<open>_do_ramdump\<close> (named \<open>do_ramdump_impl\<close>: a name cannot start with an
  underscore). The result is the return value, the device and the caller's segment
  array, which the device's \<open>segments\<close> points to.
\<close>

definition do_ramdump_impl ::
  "dump_env \<Rightarrow> ramdump_device \<Rightarrow> ramdump_segment list \<Rightarrow> bool \<Rightarrow> bool
   \<Rightarrow> int \<times> ramdump_device \<times> ramdump_segment list" where
  "do_ramdump_impl env rd_dev segs use_elf complete =
     (if consumers rd_dev = 0 then (- EPIPE, rd_dev, segs)
      else
        (let segs1 = (if complete then compact_loop segs 0 else segs);
             d1 = rd_dev\<lparr>segments := Some segs1\<rparr>
         in if use_elf then
              (let d2 = d1\<lparr>elfcore_size := elf32_core_size (length segs1)\<rparr>
               in if \<not> kzalloc_ok env (elfcore_size d2)
                  then (- ENOMEM, d2\<lparr>elfcore_buf := None\<rparr>, segs1)
                  else (case ramdump_session env (d2\<lparr>elfcore_buf := Some (elf32_core segs1)\<rparr>) of
                          (r, d') \<Rightarrow> (r, d', segs1)))
            else (case ramdump_session env d1 of (r, d') \<Rightarrow> (r, d', segs1))))"

text \<open>
  \<open>_do_minidump\<close> (named \<open>do_minidump_impl\<close>); a string table that overruns the
  header is a fault.
\<close>

definition do_minidump_impl ::
  "dump_env \<Rightarrow> ramdump_device \<Rightarrow> ramdump_segment list
   \<Rightarrow> fault + (int \<times> ramdump_device \<times> ramdump_segment list)" where
  "do_minidump_impl env rd_dev segs =
     (if consumers rd_dev = 0 then Inr (- EPIPE, rd_dev, segs)
      else
        (let d1 = rd_dev\<lparr>segments := Some segs, elfcore_size := minidump_size (length segs)\<rparr>
         in if \<not> kzalloc_ok env (elfcore_size d1)
            then Inr (- ENOMEM, d1\<lparr>elfcore_buf := None\<rparr>, segs)
            else (case minidump_core segs of
                    Inl f \<Rightarrow> Inl f
                  | Inr hdr \<Rightarrow>
                      (case ramdump_session env (d1\<lparr>elfcore_buf := Some hdr\<rparr>) of
                         (r, d') \<Rightarrow> Inr (r, d', segs)))))"

text \<open>The exported entry points.\<close>

definition do_ramdump ::
  "dump_env \<Rightarrow> ramdump_device \<Rightarrow> ramdump_segment list \<Rightarrow> int \<times> ramdump_device \<times> ramdump_segment list" where
  "do_ramdump env rd_dev segs = do_ramdump_impl env rd_dev segs False (complete_ramdump rd_dev)"

definition do_minidump ::
  "dump_env \<Rightarrow> ramdump_device \<Rightarrow> ramdump_segment list
   \<Rightarrow> fault + (int \<times> ramdump_device \<times> ramdump_segment list)" where
  "do_minidump env rd_dev segs = do_minidump_impl env rd_dev segs"

definition do_minidump_elf32 ::
  "dump_env \<Rightarrow> ramdump_device \<Rightarrow> ramdump_segment list \<Rightarrow> int \<times> ramdump_device \<times> ramdump_segment list" where
  "do_minidump_elf32 env rd_dev segs = do_ramdump_impl env rd_dev segs True False"


text \<open>
  The device \<open>create_ramdump_device\<close> returns when nothing fails: \<open>kzalloc\<close> gives
  zero-filled memory, and \<open>complete_ramdump\<close> is the device-tree property
  \<open>qcom,complete-ramdump\<close> of the parent (false without a parent).
\<close>

definition create_ramdump_device :: "bool \<Rightarrow> ramdump_device" where
  "create_ramdump_device complete =
     \<lparr>consumers = 0, readers_left = 0, ramdump_status = 0, ramdump_complete = 0,
      consumer_list = [], segments = None, elfcore_size = 0, elfcore_buf = None, attrs = 0,
      complete_ramdump = complete, abort_ramdump = False\<rparr>"

section \<open>Properties of the copy\<close>

lemma length_mem_bytes: "length (mem_bytes m p k) = k"
  by (simp add: mem_bytes_def)

lemma mem_bytes_nth: "i < k \<Longrightarrow> mem_bytes m p k ! i = m (p + of_nat i)"
  by (simp add: mem_bytes_def)

lemma of_nat_split: "x \<le> i \<Longrightarrow> (of_nat x :: u64) + of_nat (i - x) = of_nat i"
  by (metis of_nat_add le_add_diff_inverse)

lemma mem_bytes_append:
  "mem_bytes m p (x + y) = mem_bytes m p x @ mem_bytes m (p + of_nat x) y"
proof (rule nth_equalityI)
  show "length (mem_bytes m p (x + y)) = length (mem_bytes m p x @ mem_bytes m (p + of_nat x) y)"
    by (simp add: length_mem_bytes)
next
  fix i
  assume "i < length (mem_bytes m p (x + y))"
  then have i: "i < x + y" by (simp add: length_mem_bytes)
  show "mem_bytes m p (x + y) ! i = (mem_bytes m p x @ mem_bytes m (p + of_nat x) y) ! i"
  proof (cases "i < x")
    case True
    with i show ?thesis
      by (simp add: nth_append length_mem_bytes mem_bytes_nth)
  next
    case False
    then have "x \<le> i" by simp
    from of_nat_split [OF this] have "p + of_nat x + of_nat (i - x) = p + (of_nat i :: u64)"
      by (simp only: add.assoc)
    moreover from False i have "i - x < y" by simp
    ultimately show ?thesis using False i
      by (simp add: nth_append length_mem_bytes mem_bytes_nth)
  qed
qed

lemma memcpy_to_fits:
  "off + unat n \<le> length buf \<Longrightarrow>
   memcpy_to buf off m src n = Inr (take off buf @ mem_bytes m src (unat n) @ drop (off + unat n) buf)"
  by (simp add: memcpy_to_def)

lemma unat_sub_and7: "unat (a - (a AND 7)) + unat (a AND 7) = unat (a :: u64)"
proof -
  have "a AND 7 \<le> a" by (rule word_and_le2)
  then show ?thesis by (simp add: unat_sub word_le_nat_alt)
qed

lemma copy_rest_fits:
  assumes "alignbuf + unat alignsize = length buf"
  shows "copy_rest m buf device_mem alignbuf alignsize =
           Inr (take alignbuf buf @ mem_bytes m device_mem (unat alignsize))"
proof (cases "alignsize AND 7 = 0")
  case True
  with assms show ?thesis by (simp add: copy_rest_def memcpy_to_def)
next
  case False
  define t where "t = alignsize AND 7"
  define mid where "mid = alignsize - t"
  have split: "unat mid + unat t = unat alignsize"
    unfolding mid_def t_def by (rule unat_sub_and7)
  have first: "memcpy_to buf alignbuf m device_mem mid =
      Inr (take alignbuf buf @ mem_bytes m device_mem (unat mid) @ drop (alignbuf + unat mid) buf)"
    using assms split by (simp add: memcpy_to_def)
  define buf' where "buf' = take alignbuf buf @ mem_bytes m device_mem (unat mid) @ drop (alignbuf + unat mid) buf"
  have len: "length buf' = length buf"
    using assms split by (simp add: buf'_def length_mem_bytes)
  have pre: "take (alignbuf + unat mid) buf' = take alignbuf buf @ mem_bytes m device_mem (unat mid)"
    using assms split by (simp add: buf'_def length_mem_bytes)
  have second: "memcpy_to buf' (alignbuf + unat mid) m (device_mem + mid) t =
      Inr (take alignbuf buf @ mem_bytes m device_mem (unat mid) @ mem_bytes m (device_mem + mid) (unat t))"
    using assms split len pre by (simp add: memcpy_to_def)
  have "mem_bytes m device_mem (unat mid) @ mem_bytes m (device_mem + mid) (unat t)
        = mem_bytes m device_mem (unat alignsize)"
    using mem_bytes_append [of m device_mem "unat mid" "unat t"] split by simp
  with False first second show ?thesis
    by (simp add: copy_rest_def Let_def t_def [symmetric] mid_def [symmetric] buf'_def [symmetric])
qed

lemma bytes_before_unat:
  "unat (8 - (p AND 7 :: u64)) = 8 - unat (p AND 7)" "unat (p AND 7 :: u64) \<le> 7"
proof -
  have "p AND 7 \<le> 7" by (rule word_and_le1)
  then show le: "unat (p AND 7 :: u64) \<le> 7" by (simp add: word_le_nat_alt)
  have "p AND 7 \<le> 8" using \<open>p AND 7 \<le> 7\<close> by (simp add: word_le_nat_alt)
  then show "unat (8 - (p AND 7 :: u64)) = 8 - unat (p AND 7)" by (simp add: unat_sub)
qed

lemma copy_from_device_fits:
  assumes "device_mem AND 7 = 0 \<or> 8 - (device_mem AND 7) \<le> copy_size"
  shows "copy_from_device m device_mem copy_size = Inr (mem_bytes m device_mem (unat copy_size))"
proof (cases "device_mem AND 7 = 0")
  case True
  then show ?thesis
    by (simp add: copy_from_device_def copy_leading_def copy_rest_fits)
next
  case False
  define b where "b = 8 - (device_mem AND 7)"
  from False assms have le: "b \<le> copy_size" by (simp add: b_def)
  then have split: "unat b + unat (copy_size - b) = unat copy_size"
    by (simp add: unat_sub word_le_nat_alt)
  define buf where "buf = mem_bytes m device_mem (unat b) @ drop (unat b) (replicate (unat copy_size) 0)"
  have lead: "copy_leading m device_mem copy_size = (Inr buf, device_mem + b, unat b, copy_size - b)"
    using False split by (simp add: copy_leading_def Let_def b_def [symmetric] memcpy_to_def buf_def)
  have len: "unat b + unat (copy_size - b) = length buf"
    using split by (simp add: buf_def length_mem_bytes)
  have "take (unat b) buf = mem_bytes m device_mem (unat b)"
    by (simp add: buf_def length_mem_bytes)
  moreover have "mem_bytes m device_mem (unat b) @ mem_bytes m (device_mem + b) (unat (copy_size - b))
      = mem_bytes m device_mem (unat copy_size)"
    using mem_bytes_append [of m device_mem "unat b" "unat (copy_size - b)"] split by simp
  ultimately show ?thesis
    using lead copy_rest_fits [OF len, of m "device_mem + b"]
    by (simp add: copy_from_device_def)
qed

lemma copy_from_device_Inr:
  assumes "copy_from_device m device_mem copy_size = Inr buf"
  shows "buf = mem_bytes m device_mem (unat copy_size)"
proof (cases "device_mem AND 7 = 0 \<or> 8 - (device_mem AND 7) \<le> copy_size")
  case True
  with assms copy_from_device_fits [OF True, of m] show ?thesis by simp
next
  case False
  then have "\<not> unat (8 - (device_mem AND 7)) \<le> unat copy_size"
    by (simp add: word_le_nat_alt)
  with False assms show ?thesis
    by (simp add: copy_from_device_def copy_leading_def Let_def memcpy_to_def)
qed

lemma copy_from_device_overrun:
  assumes "device_mem AND 7 \<noteq> 0" and "copy_size < 8 - (device_mem AND 7)"
  shows "copy_from_device m device_mem copy_size = Inl BufferOverrun"
proof -
  from assms(2) have "\<not> unat (8 - (device_mem AND 7)) \<le> unat copy_size"
    by (simp add: word_less_nat_alt)
  with assms(1) show ?thesis
    by (simp add: copy_from_device_def copy_leading_def Let_def memcpy_to_def)
qed

text \<open>
  C8 (the three-phase copy equals a plain copy of \<open>copy_size\<close> bytes, for every source
  alignment and every size). The code does not compare \<open>bytes_before\<close> with
  \<open>copy_size\<close>: from the pointer \<open>0x1001\<close> a copy of one byte writes seven bytes into
  the one-byte buffer, and \<open>alignsize\<close> wraps around to \<open>2^64 - 6\<close>. The same happens
  inside a read of a four-byte segment mapped at \<open>0x1001\<close>.
\<close>

theorem copy_from_device_short_unaligned:
  "copy_from_device m 0x1001 1 = Inl BufferOverrun
   \<and> snd (snd (snd (copy_leading m 0x1001 1))) = 0xFFFFFFFFFFFFFFFA
   \<and> ramdump_read env
        \<lparr>consumers = 1, readers_left = 1, ramdump_status = - 1, ramdump_complete = 0,
          consumer_list = [\<lparr>entry_id = 1, data_ready = True\<rparr>],
          segments = Some [\<lparr>name = None, address = 0x80000001, v_address = 0x1001, size_seg = 4\<rparr>],
          elfcore_size = 0, elfcore_buf = None, attrs = 0, complete_ramdump = False,
          abort_ramdump = False\<rparr>
        1 False 4096 0 = (if vzalloc_ok env 4 then Inl BufferOverrun
            else Inr \<lparr>ret = - ENOMEM,
                   dev_after = \<lparr>consumers = 1, readers_left = 0, ramdump_status = - 1, ramdump_complete = 1,
                     consumer_list = [\<lparr>entry_id = 1, data_ready = False\<rparr>],
                     segments = Some [\<lparr>name = None, address = 0x80000001, v_address = 0x1001, size_seg = 4\<rparr>],
                     elfcore_size = 0, elfcore_buf = None, attrs = DMA_ATTR_SKIP_ZEROING env,
                     complete_ramdump = False, abort_ramdump = False\<rparr>,
                   pos_after = 0, user_buf = []\<rparr>)"
  by (simp add: copy_from_device_def copy_leading_def Let_def memcpy_to_def
      ramdump_read_def read_segment_def entry_ready_def offset_translate_def seg_table_def
      offset_translate_loop.simps MAX_IOREMAP_SIZE_def ramdump_done_def reset_ramdump_entry_def
      clear_ready_def)

text \<open>
  Whenever \<open>device_mem\<close> is 8-byte aligned, or the leading bytes up to the next
  boundary fit into \<open>copy_size\<close>, the three-phase copy fills the buffer with exactly
  the \<open>copy_size\<close> bytes that start at \<open>device_mem\<close>, in order.
\<close>

theorem copy_from_device_plain:
  assumes "device_mem AND 7 = 0 \<or> 8 - (device_mem AND 7) \<le> copy_size"
  shows "copy_from_device m device_mem copy_size = Inr (mem_bytes m device_mem (unat copy_size))
         \<and> length (mem_bytes m device_mem (unat copy_size)) = unat copy_size"
  using assms by (simp add: copy_from_device_fits length_mem_bytes)

theorem copy_from_device_plain_witness:
  "((0x1005 :: u64) AND 7 = 0 \<or> 8 - ((0x1005 :: u64) AND 7) \<le> (5 :: u64))
   \<and> copy_from_device (\<lambda>a. ucast a) 0x1005 5 = Inr [5, 6, 7, 8, 9]"
proof -
  have h: "(0x1005 :: u64) AND 7 = 0 \<or> 8 - ((0x1005 :: u64) AND 7) \<le> (5 :: u64)" by simp
  have "mem_bytes (\<lambda>a :: u64. ucast a :: u8) 0x1005 5 = [5, 6, 7, 8, 9]"
    by (simp add: mem_bytes_def upt_rec)
  with copy_from_device_plain [OF h, of "\<lambda>a. ucast a"] h show ?thesis by simp
qed

section \<open>Properties of reading\<close>

lemmas read_eval =
  ramdump_read_def header_bytes_def read_segment_def entry_ready_def offset_translate_def seg_table_def
  offset_translate_loop.simps MAX_IOREMAP_SIZE_def ramdump_done_def reset_ramdump_entry_def
  clear_ready_def copy_from_device_fits Let_def

lemmas dump_eval =
  do_ramdump_impl_def ramdump_session_def set_ready_def create_ramdump_device_def
  ramdump_open_def elf32_core_size_def sizeof_Elf32_Ehdr_def sizeof_Elf32_Phdr_def

text \<open>
  C5 (a read that observes the abort flag decrements the outstanding-reader count only
  if it has not been decremented for this consumer yet). \<open>ramdump_read\<close> goes to
  \<open>ramdump_done\<close> and calls \<open>reset_ramdump_entry\<close> whatever \<open>data_ready\<close> is, while
  \<open>ramdump_release\<close> checks \<open>data_ready\<close> first. Two consumers are registered;
  consumer 1 reads the 16-byte dump to its end, which decrements the count from 2 to 1,
  consumer 2 never reads, and the request times out. A further read of consumer 1 then
  returns \<open>-ETIME\<close> and takes the count from 1 to 0, completing the wait, although
  consumer 2 is still outstanding; \<open>ramdump_release\<close> of consumer 1 in the same state
  leaves the count at 1.
\<close>

theorem ramdump_read_abort_decrements_again:
  "do_ramdump
     \<lparr>kzalloc_ok = (\<lambda>n. True),
       wait_for_completion_timeout =
         (\<lambda>d. case ramdump_read
                    \<lparr>signal_pending = False, dma_remap = (\<lambda>a n. a), mem = (\<lambda>a. 0),
                      vzalloc_ok = (\<lambda>n. True), hdr_fault = False, data_fault = False,
                      DMA_ATTR_SKIP_ZEROING = 0\<rparr> d 1 False 4096 0 of
                Inl f \<Rightarrow> (d, False)
              | Inr r1 \<Rightarrow>
                  (case ramdump_read
                          \<lparr>signal_pending = False, dma_remap = (\<lambda>a n. a), mem = (\<lambda>a. 0),
                      vzalloc_ok = (\<lambda>n. True), hdr_fault = False, data_fault = False,
                      DMA_ATTR_SKIP_ZEROING = 0\<rparr>
                          (dev_after r1) 1 False 4096 (pos_after r1) of
                     Inl f \<Rightarrow> (d, False)
                   | Inr r2 \<Rightarrow> (dev_after r2, False))),
       synchronize_srcu = (\<lambda>d. d)\<rparr>
     (snd (ramdump_open (snd (ramdump_open (create_ramdump_device False) (Some 1))) (Some 2)))
     [\<lparr>name = None, address = 0x80000000, v_address = 0, size_seg = 16\<rparr>]
   = (- EPIPE,
      \<lparr>consumers = 2, readers_left = 1, ramdump_status = 0, ramdump_complete = 0,
       consumer_list = [\<lparr>entry_id = 1, data_ready = False\<rparr>, \<lparr>entry_id = 2, data_ready = True\<rparr>],
       segments = Some [\<lparr>name = None, address = 0x80000000, v_address = 0, size_seg = 16\<rparr>],
       elfcore_size = 0, elfcore_buf = None, attrs = 0, complete_ramdump = False,
       abort_ramdump = True\<rparr>,
      [\<lparr>name = None, address = 0x80000000, v_address = 0, size_seg = 16\<rparr>])
   \<and> ramdump_read env
       \<lparr>consumers = 2, readers_left = 1, ramdump_status = 0, ramdump_complete = 0,
       consumer_list = [\<lparr>entry_id = 1, data_ready = False\<rparr>, \<lparr>entry_id = 2, data_ready = True\<rparr>],
       segments = Some [\<lparr>name = None, address = 0x80000000, v_address = 0, size_seg = 16\<rparr>],
       elfcore_size = 0, elfcore_buf = None, attrs = 0, complete_ramdump = False,
       abort_ramdump = True\<rparr>
       1 False count pos
     = Inr \<lparr>ret = - ETIME,
            dev_after =
              \<lparr>consumers = 2, readers_left = 0, ramdump_status = - 1, ramdump_complete = 1,
                consumer_list = [\<lparr>entry_id = 1, data_ready = False\<rparr>, \<lparr>entry_id = 2, data_ready = True\<rparr>],
                segments = Some [\<lparr>name = None, address = 0x80000000, v_address = 0, size_seg = 16\<rparr>],
                elfcore_size = 0, elfcore_buf = None, attrs = 0, complete_ramdump = False,
                abort_ramdump = True\<rparr>,
            pos_after = 0, user_buf = []\<rparr>
   \<and> ramdump_release
       \<lparr>consumers = 2, readers_left = 1, ramdump_status = 0, ramdump_complete = 0,
       consumer_list = [\<lparr>entry_id = 1, data_ready = False\<rparr>, \<lparr>entry_id = 2, data_ready = True\<rparr>],
       segments = Some [\<lparr>name = None, address = 0x80000000, v_address = 0, size_seg = 16\<rparr>],
       elfcore_size = 0, elfcore_buf = None, attrs = 0, complete_ramdump = False,
       abort_ramdump = True\<rparr>
       1
     = (0,
        \<lparr>consumers = 1, readers_left = 1, ramdump_status = 0, ramdump_complete = 0,
          consumer_list = [\<lparr>entry_id = 2, data_ready = True\<rparr>],
          segments = Some [\<lparr>name = None, address = 0x80000000, v_address = 0, size_seg = 16\<rparr>],
          elfcore_size = 0, elfcore_buf = None, attrs = 0, complete_ramdump = False,
          abort_ramdump = True\<rparr>)"
  by (simp add: do_ramdump_def dump_eval read_eval ramdump_release_def)

lemma entry_ready_reset: "\<not> entry_ready (reset_ramdump_entry p d) p"
proof -
  have "\<not> list_ex (\<lambda>e. entry_id e = p \<and> data_ready e) (map (clear_ready p) es)" for es
    by (induction es) (simp_all add: clear_ready_def)
  then show ?thesis
    by (simp add: entry_ready_def reset_ramdump_entry_def Let_def)
qed

text \<open>
  A read that finds the abort flag set, and is not turned away by \<open>O_NONBLOCK\<close>,
  returns \<open>-ETIME\<close> with \<open>*pos\<close> reset to 0, records a failed session, clears the
  consumer's \<open>data_ready\<close> and decrements the outstanding-reader count by one.
\<close>

theorem ramdump_read_aborted:
  assumes "abort_ramdump rd_dev" and "entry_ready rd_dev entry \<or> \<not> nonblock"
  shows "ramdump_read env rd_dev entry nonblock count pos
           = Inr \<lparr>ret = - ETIME,
                  dev_after = reset_ramdump_entry entry (rd_dev\<lparr>ramdump_status := - 1\<rparr>),
                  pos_after = 0, user_buf = []\<rparr>
         \<and> \<not> entry_ready (reset_ramdump_entry entry (rd_dev\<lparr>ramdump_status := - 1\<rparr>)) entry
         \<and> readers_left (reset_ramdump_entry entry (rd_dev\<lparr>ramdump_status := - 1\<rparr>))
             = readers_left rd_dev - 1"
  using assms
  by (auto simp: ramdump_read_def ramdump_done_def entry_ready_reset)
     (simp_all add: reset_ramdump_entry_def Let_def)

theorem ramdump_read_aborted_witness:
  "abort_ramdump
     \<lparr>consumers = 1, readers_left = 1, ramdump_status = - 1, ramdump_complete = 0,
       consumer_list = [\<lparr>entry_id = 1, data_ready = True\<rparr>],
       segments = Some [], elfcore_size = 0, elfcore_buf = None, attrs = 0,
       complete_ramdump = False, abort_ramdump = True\<rparr>
   \<and> ramdump_read
       \<lparr>signal_pending = False, dma_remap = (\<lambda>a n. a), mem = (\<lambda>a. 0),
         vzalloc_ok = (\<lambda>n. True), hdr_fault = False, data_fault = False,
         DMA_ATTR_SKIP_ZEROING = 0\<rparr>
       \<lparr>consumers = 1, readers_left = 1, ramdump_status = - 1, ramdump_complete = 0,
         consumer_list = [\<lparr>entry_id = 1, data_ready = True\<rparr>],
         segments = Some [], elfcore_size = 0, elfcore_buf = None, attrs = 0,
         complete_ramdump = False, abort_ramdump = True\<rparr>
       1 False 4096 0
     = Inr \<lparr>ret = - ETIME,
            dev_after =
              \<lparr>consumers = 1, readers_left = 0, ramdump_status = - 1, ramdump_complete = 1,
                consumer_list = [\<lparr>entry_id = 1, data_ready = False\<rparr>],
                segments = Some [], elfcore_size = 0, elfcore_buf = None, attrs = 0,
                complete_ramdump = False, abort_ramdump = True\<rparr>,
            pos_after = 0, user_buf = []\<rparr>"
  using ramdump_read_aborted [where nonblock = False
      and env = "\<lparr>signal_pending = False, dma_remap = (\<lambda>a n. a), mem = (\<lambda>a. 0),
         vzalloc_ok = (\<lambda>n. True), hdr_fault = False, data_fault = False,
         DMA_ATTR_SKIP_ZEROING = 0\<rparr>" and entry = 1 and count = 4096
      and pos = 0
      and rd_dev = "\<lparr>consumers = 1, readers_left = 1, ramdump_status = - 1, ramdump_complete = 0,
       consumer_list = [\<lparr>entry_id = 1, data_ready = True\<rparr>],
       segments = Some [], elfcore_size = 0, elfcore_buf = None, attrs = 0,
       complete_ramdump = False, abort_ramdump = True\<rparr>"]
  by (simp add: reset_ramdump_entry_def clear_ready_def)

section \<open>Properties of the dump requests\<close>

lemma length_compact_loop: "length (compact_loop segs i) = length segs"
proof (induction segs i rule: compact_loop.induct)
  case (1 segs i)
  show ?case
  proof (cases "i + 1 < length segs")
    case True
    with "1" show ?thesis by (subst compact_loop.simps) simp
  next
    case False
    then show ?thesis by (subst compact_loop.simps) simp
  qed
qed

lemma nth_compact_loop:
  "j < length segs \<Longrightarrow>
   compact_loop segs i ! j =
     (if i \<le> j \<and> j + 1 < length segs
      then (segs ! j)\<lparr>size_seg := address (segs ! (j + 1)) - address (segs ! j)\<rparr>
      else segs ! j)"
proof (induction segs i arbitrary: j rule: compact_loop.induct)
  case (1 segs i)
  show ?case
  proof (cases "i + 1 < length segs")
    case True
    define segs1 where
      "segs1 = segs[i := (segs ! i)\<lparr>size_seg := address (segs ! (i + 1)) - address (segs ! i)\<rparr>]"
    have len: "length segs1 = length segs" by (simp add: segs1_def)
    have step: "compact_loop segs i = compact_loop segs1 (i + 1)"
      using True by (subst compact_loop.simps) (simp add: segs1_def)
    have ih: "compact_loop segs1 (i + 1) ! j =
        (if i + 1 \<le> j \<and> j + 1 < length segs1
         then (segs1 ! j)\<lparr>size_seg := address (segs1 ! (j + 1)) - address (segs1 ! j)\<rparr>
         else segs1 ! j)"
      using "1.IH" [OF True, of j] "1.prems" len by (simp add: segs1_def)
    show ?thesis
    proof (cases "i + 1 \<le> j")
      case True
      then have "segs1 ! j = segs ! j" "segs1 ! (j + 1) = segs ! (j + 1)"
        by (simp_all add: segs1_def)
      with True ih step len show ?thesis by simp
    next
      case False
      with ih step len "1.prems" \<open>i + 1 < length segs\<close> show ?thesis
        by (cases "j = i") (simp_all add: segs1_def)
    qed
  next
    case False
    then have eq: "compact_loop segs i = segs" by (subst compact_loop.simps) simp
    from False have "\<not> (i \<le> j \<and> j + 1 < length segs)" by arith
    with eq show ?thesis by (simp only: if_False)
  qed
qed

lemma mod32_mod64: "(x mod 18446744073709551616) mod 4294967296 = (x::nat) mod 4294967296"
  by (rule mod_mod_cancel) simp

lemma unat_ucast32: "unat (ucast (x :: u64) :: u32) = unat x mod 4294967296"
  by (simp add: unsigned_ucast_eq take_bit_eq_mod)

lemma unat_ucast64: "unat (ucast (x :: u32) :: u64) = unat x"
proof -
  have "unat x < 2 ^ LENGTH(32)" by (rule unsigned_less)
  then have "unat x < 18446744073709551616" by simp
  then show ?thesis by (simp add: unsigned_ucast_eq take_bit_eq_mod)
qed

lemma ucast_add_trunc:
  "(ucast (a + ucast (ucast b :: u32) :: u64) :: u32) = ucast (a + b)"
proof -
  have "unat (ucast (a + ucast (ucast b :: u32) :: u64) :: u32)
        = (unat a + unat b mod 4294967296) mod 4294967296"
    by (simp add: unat_ucast32 unat_ucast64 unat_word_ariths mod32_mod64)
  also have "\<dots> = (unat a + unat b) mod 4294967296"
    by (rule mod_add_right_eq)
  also have "\<dots> = unat (ucast (a + b) :: u32)"
    by (simp add: unat_ucast32 unat_word_ariths mod32_mod64)
  finally show ?thesis by (simp add: word_unat_eq_iff)
qed

lemma elf32_phdrs_nth:
  "i < length segs \<Longrightarrow>
   elf32_phdrs segs offset ! i =
     \<lparr>p_type = PT_LOAD, p_offset = ucast (offset + sum_list (map size_seg (take i segs))),
      p_vaddr = ucast (address (segs ! i)), p_paddr = ucast (address (segs ! i)),
      p_filesz = ucast (size_seg (segs ! i)), p_memsz = ucast (size_seg (segs ! i)),
      p_flags = PF_R OR PF_W OR PF_X, p_align = 0\<rparr>"
proof (induction segs arbitrary: i offset)
  case Nil
  then show ?case by simp
next
  case (Cons s ss)
  show ?case
  proof (cases i)
    case 0
    then show ?thesis by (simp add: Let_def)
  next
    case (Suc k)
    with Cons.prems have k: "k < length ss" by simp
    have "ucast (offset + ucast (ucast (size_seg s) :: u32) + sum_list (map size_seg (take k ss)) :: u64)
          = (ucast (offset + (size_seg s + sum_list (map size_seg (take k ss)))) :: u32)"
      using ucast_add_trunc [of "offset + sum_list (map size_seg (take k ss))" "size_seg s"]
      by (simp add: ac_simps)
    with Suc Cons.IH [OF k] show ?thesis by (simp add: Let_def)
  qed
qed

lemma length_elf32_phdrs: "length (elf32_phdrs segs offset) = length segs"
  by (induction segs arbitrary: offset) (simp_all add: Let_def)

lemma unat_sum_list_mod32:
  "unat (sum_list ws :: u64) mod 4294967296 = sum_list (map unat ws) mod 4294967296"
proof (induction ws)
  case Nil
  then show ?case by simp
next
  case (Cons w ws)
  have "unat (w + sum_list ws) mod 4294967296 = (unat w + unat (sum_list ws)) mod 4294967296"
    by (simp add: unat_word_ariths mod32_mod64)
  also have "\<dots> = (unat w + unat (sum_list ws) mod 4294967296) mod 4294967296"
    by (simp add: mod_add_right_eq)
  also have "\<dots> = (unat w + sum_list (map unat ws) mod 4294967296) mod 4294967296"
    by (simp only: Cons.IH)
  also have "\<dots> = (unat w + sum_list (map unat ws)) mod 4294967296"
    by (simp add: mod_add_right_eq)
  finally show ?case by simp
qed

text \<open>
  C9: on a device with no registered consumer a dump request, in either mode, returns
  \<open>-EPIPE\<close> at once. The device and the caller's segments are returned as they were (no
  segment table installed, no header built, no consumer touched), and the result does
  not depend on the environment: nothing is allocated and nothing is waited for.
\<close>

theorem dump_without_consumers:
  assumes "consumers rd_dev = 0"
  shows "do_ramdump_impl env rd_dev segs use_elf complete = (- EPIPE, rd_dev, segs)
         \<and> do_minidump_impl env rd_dev segs = Inr (- EPIPE, rd_dev, segs)"
  using assms by (simp add: do_ramdump_impl_def do_minidump_impl_def)

theorem dump_without_consumers_witness:
  "consumers (create_ramdump_device True) = 0
   \<and> do_ramdump_impl
        \<lparr>kzalloc_ok = (\<lambda>n. True), wait_for_completion_timeout = (\<lambda>d. (d, False)),
          synchronize_srcu = (\<lambda>d. d)\<rparr>
        (create_ramdump_device True)
        [\<lparr>name = None, address = 0x1000, v_address = 0, size_seg = 1\<rparr>,
         \<lparr>name = None, address = 0x2000, v_address = 0, size_seg = 2\<rparr>] True True
      = (- EPIPE, create_ramdump_device True,
         [\<lparr>name = None, address = 0x1000, v_address = 0, size_seg = 1\<rparr>,
          \<lparr>name = None, address = 0x2000, v_address = 0, size_seg = 2\<rparr>])
   \<and> do_minidump_impl
        \<lparr>kzalloc_ok = (\<lambda>n. True), wait_for_completion_timeout = (\<lambda>d. (d, False)),
          synchronize_srcu = (\<lambda>d. d)\<rparr>
        (create_ramdump_device True)
        [\<lparr>name = None, address = 0x1000, v_address = 0, size_seg = 1\<rparr>,
         \<lparr>name = None, address = 0x2000, v_address = 0, size_seg = 2\<rparr>]
      = Inr (- EPIPE, create_ramdump_device True,
         [\<lparr>name = None, address = 0x1000, v_address = 0, size_seg = 1\<rparr>,
          \<lparr>name = None, address = 0x2000, v_address = 0, size_seg = 2\<rparr>])"
proof -
  have h: "consumers (create_ramdump_device True) = 0"
    by (simp add: create_ramdump_device_def)
  show ?thesis using h dump_without_consumers [OF h] by simp
qed

text \<open>
  C6: a dump request with compaction (\<open>complete_ramdump\<close>) over \<open>n\<close> segments sets
  the size of every segment \<open>i < n - 1\<close> to the distance from its address to the
  address of segment \<open>i + 1\<close> (in 64-bit arithmetic), leaves the size of the last
  segment as given, and changes no address, name or mapped pointer. The rewrite is the
  first thing a request does once the check for a registered consumer has passed, in
  raw and in ELF mode, whatever the allocation and the session do afterwards; a request
  refused for want of a consumer touches no segment.
\<close>

theorem compaction_rewrites_sizes:
  assumes "i < length segs"
  shows "case do_ramdump_impl env rd_dev segs use_elf True of
           (r, d', segs') \<Rightarrow>
             (consumers rd_dev = 0 \<longrightarrow> segs' = segs) \<and>
             (consumers rd_dev \<noteq> 0 \<longrightarrow>
                length segs' = length segs \<and>
                size_seg (segs' ! i) =
                  (if i + 1 < length segs then address (segs ! (i + 1)) - address (segs ! i)
                   else size_seg (segs ! i)) \<and>
                address (segs' ! i) = address (segs ! i) \<and>
                name (segs' ! i) = name (segs ! i) \<and>
                v_address (segs' ! i) = v_address (segs ! i))"
proof -
  have "snd (snd (do_ramdump_impl env rd_dev segs use_elf True)) =
          (if consumers rd_dev = 0 then segs else compact_loop segs 0)"
    by (simp add: do_ramdump_impl_def Let_def split: prod.splits)
  then show ?thesis using assms
    by (auto simp: length_compact_loop nth_compact_loop split: prod.splits)
qed

theorem compaction_rewrites_sizes_witness:
  "(0 :: nat) < length [\<lparr>name = None, address = 0x1000, v_address = 0, size_seg = 1\<rparr>,
                       \<lparr>name = None, address = 0x2000, v_address = 0, size_seg = 2\<rparr>]
   \<and> (1 :: nat) < length [\<lparr>name = None, address = 0x1000, v_address = 0, size_seg = 1\<rparr>,
                         \<lparr>name = None, address = 0x2000, v_address = 0, size_seg = 2\<rparr>]
   \<and> consumers (snd (ramdump_open (create_ramdump_device True) (Some 1))) \<noteq> 0
   \<and> (case do_ramdump_impl
          \<lparr>kzalloc_ok = (\<lambda>n. True), wait_for_completion_timeout = (\<lambda>d. (d, False)),
            synchronize_srcu = (\<lambda>d. d)\<rparr>
          (snd (ramdump_open (create_ramdump_device True) (Some 1)))
          [\<lparr>name = None, address = 0x1000, v_address = 0, size_seg = 1\<rparr>,
           \<lparr>name = None, address = 0x2000, v_address = 0, size_seg = 2\<rparr>] False True of
        (r, d', segs') \<Rightarrow>
          length segs' = 2
          \<and> size_seg (segs' ! 0) = 0x1000 \<and> address (segs' ! 0) = 0x1000
          \<and> name (segs' ! 0) = None \<and> v_address (segs' ! 0) = 0
          \<and> size_seg (segs' ! 1) = 2 \<and> address (segs' ! 1) = 0x2000
          \<and> name (segs' ! 1) = None \<and> v_address (segs' ! 1) = 0)"
  using compaction_rewrites_sizes [where i = 0
      and segs = "[\<lparr>name = None, address = 0x1000, v_address = 0, size_seg = 1\<rparr>,
        \<lparr>name = None, address = 0x2000, v_address = 0, size_seg = 2\<rparr>]"
      and env = "\<lparr>kzalloc_ok = (\<lambda>n. True), wait_for_completion_timeout = (\<lambda>d. (d, False)),
        synchronize_srcu = (\<lambda>d. d)\<rparr>"
      and rd_dev = "snd (ramdump_open (create_ramdump_device True) (Some 1))" and use_elf = False]
    compaction_rewrites_sizes [where i = 1
      and segs = "[\<lparr>name = None, address = 0x1000, v_address = 0, size_seg = 1\<rparr>,
        \<lparr>name = None, address = 0x2000, v_address = 0, size_seg = 2\<rparr>]"
      and env = "\<lparr>kzalloc_ok = (\<lambda>n. True), wait_for_completion_timeout = (\<lambda>d. (d, False)),
        synchronize_srcu = (\<lambda>d. d)\<rparr>"
      and rd_dev = "snd (ramdump_open (create_ramdump_device True) (Some 1))" and use_elf = False]
  by (simp add: ramdump_open_def create_ramdump_device_def split: prod.splits)

lemma length_le_bytes: "length (le_bytes n w) = n"
  by (simp add: le_bytes_def)

lemma length_elf32_phdr_bytes: "length (elf32_phdr_bytes ph) = sizeof_Elf32_Phdr"
  by (simp add: elf32_phdr_bytes_def length_le_bytes sizeof_Elf32_Phdr_def)

lemma length_elf32_ehdr_bytes: "length (elfhdr_bytes (elf32_ehdr n)) = sizeof_Elf32_Ehdr"
  by (simp add: elfhdr_bytes_def elf32_ehdr_def length_le_bytes sizeof_Elf32_Ehdr_def ELFMAG_def)

lemma length_concat_const:
  "(\<And>x. x \<in> set xs \<Longrightarrow> length (f x) = k) \<Longrightarrow> length (concat (map f xs)) = k * length xs"
  by (induction xs) simp_all

lemma length_elf32_core:
  "length (elf32_core segs) = sizeof_Elf32_Ehdr + sizeof_Elf32_Phdr * length segs"
  by (simp add: elf32_core_def length_elf32_ehdr_bytes length_elf32_phdrs
      length_concat_const [where k = sizeof_Elf32_Phdr] length_elf32_phdr_bytes)

lemma unat_elf32_core_size_mod:
  "unat (elf32_core_size n) mod 4294967296 = (sizeof_Elf32_Ehdr + sizeof_Elf32_Phdr * n) mod 4294967296"
  by (simp add: elf32_core_size_def unat_word_ariths unat_of_nat mod32_mod64
      sizeof_Elf32_Ehdr_def sizeof_Elf32_Phdr_def mod_simps)

lemma do_ramdump_impl_elf:
  assumes "consumers rd_dev \<noteq> 0" and "kzalloc_ok env (elf32_core_size (length segs))"
  shows "do_ramdump_impl env rd_dev segs True False =
           (case ramdump_session env
                   (rd_dev\<lparr>segments := Some segs, elfcore_size := elf32_core_size (length segs),
                           elfcore_buf := Some (elf32_core segs)\<rparr>) of
              (r, d') \<Rightarrow> (r, d', segs))"
  using assms by (simp add: do_ramdump_impl_def Let_def)

text \<open>
  C3 as stated: \<open>p_paddr\<close> is the segment's address. The fields of \<open>Elf32_Phdr\<close> are
  32 bits wide and the segment's address is an \<open>unsigned long\<close>: an address of
  \<open>2^32\<close> is stored as 0.
\<close>

theorem elf32_program_header_truncates:
  "unat (p_paddr (elf32_phdrs
           [\<lparr>name = None, address = 0x100000000, v_address = 0, size_seg = 0x100\<rparr>]
           (elf32_core_size 1) ! 0))
   \<noteq> unat (address \<lparr>name = None, address = 0x100000000, v_address = 0, size_seg = 0x100\<rparr>)"
  by (simp add: Let_def)

text \<open>
  C3, amended: in ELF32 mode the header is one ELF32 file header (52 bytes) followed by
  exactly one program header per segment, in segment order; program header \<open>i\<close> has
  \<open>p_type = PT_LOAD\<close>, \<open>p_flags = PF_R | PF_W | PF_X\<close>, \<open>p_vaddr = p_paddr\<close> the
  segment's address modulo \<open>2^32\<close>, \<open>p_filesz = p_memsz\<close> the segment's size modulo
  \<open>2^32\<close>, and \<open>p_offset\<close> the size of the header block plus the sizes of the segments
  before it, modulo \<open>2^32\<close>. The values are those of the claim whenever they are below
  \<open>2^32\<close>. By \<open>do_ramdump_impl_elf\<close> this header is the one a session serves.
\<close>

theorem elf32_program_headers:
  assumes "i < length segs"
  shows "let phdrs = elf32_phdrs segs (elf32_core_size (length segs)) in
             elf32_core segs = elfhdr_bytes (elf32_ehdr (length segs)) @ concat (map elf32_phdr_bytes phdrs)
             \<and> length (elfhdr_bytes (elf32_ehdr (length segs))) = sizeof_Elf32_Ehdr
             \<and> length phdrs = length segs
             \<and> p_type (phdrs ! i) = PT_LOAD
             \<and> p_flags (phdrs ! i) = PF_R OR PF_W OR PF_X
             \<and> unat (p_vaddr (phdrs ! i)) = unat (address (segs ! i)) mod 2 ^ 32
             \<and> p_paddr (phdrs ! i) = p_vaddr (phdrs ! i)
             \<and> unat (p_filesz (phdrs ! i)) = unat (size_seg (segs ! i)) mod 2 ^ 32
             \<and> p_memsz (phdrs ! i) = p_filesz (phdrs ! i)
             \<and> unat (p_offset (phdrs ! i)) =
                 (sizeof_Elf32_Ehdr + sizeof_Elf32_Phdr * length segs
                  + sum_list (map (unat \<circ> size_seg) (take i segs))) mod 2 ^ 32"
proof -
  let ?n = "length segs"
  let ?S = "sum_list (map size_seg (take i segs))"
  have "unat (ucast (elf32_core_size ?n + ?S) :: u32)
        = (unat (elf32_core_size ?n) + unat ?S) mod 4294967296"
    by (simp add: unat_ucast32 unat_word_ariths mod32_mod64)
  also have "\<dots> = (unat (elf32_core_size ?n) mod 4294967296 + unat ?S mod 4294967296) mod 4294967296"
    by (simp add: mod_add_eq)
  also have "\<dots> = ((sizeof_Elf32_Ehdr + sizeof_Elf32_Phdr * ?n) mod 4294967296
                    + sum_list (map unat (map size_seg (take i segs))) mod 4294967296) mod 4294967296"
    by (simp only: unat_elf32_core_size_mod unat_sum_list_mod32)
  also have "\<dots> = (sizeof_Elf32_Ehdr + sizeof_Elf32_Phdr * ?n
                    + sum_list (map (unat \<circ> size_seg) (take i segs))) mod 4294967296"
    by (simp add: mod_add_eq)
  finally have off: "unat (ucast (elf32_core_size ?n + ?S) :: u32)
      = (sizeof_Elf32_Ehdr + sizeof_Elf32_Phdr * ?n
         + sum_list (map (unat \<circ> size_seg) (take i segs))) mod 4294967296" .
  show ?thesis
    using assms off
    by (simp add: Let_def elf32_phdrs_nth length_elf32_phdrs length_elf32_ehdr_bytes
        elf32_core_def unat_ucast32)
qed

theorem elf32_program_headers_witness:
  "(1 :: nat) < length [\<lparr>name = None, address = 0x1000, v_address = 0, size_seg = 0x100\<rparr>,
                       \<lparr>name = None, address = 0x2000, v_address = 0, size_seg = 0x200\<rparr>]
   \<and> (let phdrs = elf32_phdrs
            [\<lparr>name = None, address = 0x1000, v_address = 0, size_seg = 0x100\<rparr>,
             \<lparr>name = None, address = 0x2000, v_address = 0, size_seg = 0x200\<rparr>]
            (elf32_core_size 2)
        in length phdrs = 2 \<and> p_type (phdrs ! 1) = PT_LOAD
           \<and> unat (p_vaddr (phdrs ! 1)) = 0x2000 \<and> unat (p_filesz (phdrs ! 1)) = 0x200
           \<and> unat (p_offset (phdrs ! 1)) = 52 + 2 * 32 + 0x100)"
  using elf32_program_headers [where i = 1
      and segs = "[\<lparr>name = None, address = 0x1000, v_address = 0, size_seg = 0x100\<rparr>,
                   \<lparr>name = None, address = 0x2000, v_address = 0, size_seg = 0x200\<rparr>]"]
  by (simp add: Let_def sizeof_Elf32_Ehdr_def sizeof_Elf32_Phdr_def elf32_core_size_def)

section \<open>Sessions\<close>















lemma length_write_at: "write_at buf off bs = Inr buf' \<Longrightarrow> length buf' = length buf"
  by (auto simp: write_at_def split: if_splits)















text \<open>
  C10: \<open>ramdump_open\<close> adds the new entry to the consumer list, counts it, and sets
  \<open>ramdump_status\<close> to 0 whatever it was; it changes no other field of the device
  (and nothing when the allocation fails). The interleaving: consumer 1 reads, the copy
  to its buffer faults, the read records \<open>ramdump_status = -1\<close> and completes the
  wait; consumer 2 opens the device before the producer looks at the status; the dump
  request returns 0. Without that open the same request returns \<open>-EPIPE\<close>.
\<close>

theorem open_resets_status:
  "snd (ramdump_open rd_dev (Some p)) =
     rd_dev\<lparr>consumers := consumers rd_dev + 1, ramdump_status := 0,
             consumer_list := consumer_list rd_dev @ [\<lparr>entry_id = p, data_ready = False\<rparr>]\<rparr>
   \<and> (snd (ramdump_open rd_dev (Some p)))
        \<lparr>consumers := consumers rd_dev, ramdump_status := ramdump_status rd_dev,
          consumer_list := consumer_list rd_dev\<rparr> = rd_dev
   \<and> ramdump_open rd_dev None = (- ENOMEM, rd_dev)
   \<and> ramdump_read
         \<lparr>signal_pending = False, dma_remap = (\<lambda>a n. a), mem = (\<lambda>a. 0),
           vzalloc_ok = (\<lambda>n. True), hdr_fault = False, data_fault = True,
           DMA_ATTR_SKIP_ZEROING = 0\<rparr>
         \<lparr>consumers = 1, readers_left = 1, ramdump_status = - 1, ramdump_complete = 0,
           consumer_list = [\<lparr>entry_id = 1, data_ready = True\<rparr>],
           segments = Some [\<lparr>name = None, address = 0x80000000, v_address = 0, size_seg = 0x1000\<rparr>],
           elfcore_size = 0, elfcore_buf = None, attrs = 0, complete_ramdump = False,
           abort_ramdump = False\<rparr> 1 False 4096 0
       = Inr \<lparr>ret = - EFAULT,
              dev_after =
                \<lparr>consumers = 1, readers_left = 0, ramdump_status = - 1, ramdump_complete = 1,
                  consumer_list = [\<lparr>entry_id = 1, data_ready = False\<rparr>],
                  segments = Some [\<lparr>name = None, address = 0x80000000, v_address = 0, size_seg = 0x1000\<rparr>],
                  elfcore_size = 0, elfcore_buf = None, attrs = 0, complete_ramdump = False,
                  abort_ramdump = False\<rparr>,
              pos_after = 0, user_buf = []\<rparr>
   \<and> do_ramdump
         \<lparr>kzalloc_ok = (\<lambda>n. True),
           wait_for_completion_timeout =
             (\<lambda>d. case ramdump_read
                        \<lparr>signal_pending = False, dma_remap = (\<lambda>a n. a), mem = (\<lambda>a. 0),
                          vzalloc_ok = (\<lambda>n. True), hdr_fault = False, data_fault = True,
                          DMA_ATTR_SKIP_ZEROING = 0\<rparr> d 1 False 4096 0 of
                    Inl f \<Rightarrow> (d, False)
                  | Inr r \<Rightarrow> (snd (ramdump_open (dev_after r) (Some 2)), True)),
           synchronize_srcu = (\<lambda>d. d)\<rparr>
         (snd (ramdump_open (create_ramdump_device False) (Some 1)))
         [\<lparr>name = None, address = 0x80000000, v_address = 0, size_seg = 0x1000\<rparr>]
       = (0,
          \<lparr>consumers = 2, readers_left = 0, ramdump_status = 0, ramdump_complete = 1,
            consumer_list = [\<lparr>entry_id = 1, data_ready = False\<rparr>, \<lparr>entry_id = 2, data_ready = False\<rparr>],
            segments = Some [\<lparr>name = None, address = 0x80000000, v_address = 0, size_seg = 0x1000\<rparr>],
            elfcore_size = 0, elfcore_buf = None, attrs = 0, complete_ramdump = False,
            abort_ramdump = False\<rparr>,
          [\<lparr>name = None, address = 0x80000000, v_address = 0, size_seg = 0x1000\<rparr>])
   \<and> do_ramdump
         \<lparr>kzalloc_ok = (\<lambda>n. True),
           wait_for_completion_timeout =
             (\<lambda>d. case ramdump_read
                        \<lparr>signal_pending = False, dma_remap = (\<lambda>a n. a), mem = (\<lambda>a. 0),
                          vzalloc_ok = (\<lambda>n. True), hdr_fault = False, data_fault = True,
                          DMA_ATTR_SKIP_ZEROING = 0\<rparr> d 1 False 4096 0 of
                    Inl f \<Rightarrow> (d, False)
                  | Inr r \<Rightarrow> (dev_after r, True)),
           synchronize_srcu = (\<lambda>d. d)\<rparr>
         (snd (ramdump_open (create_ramdump_device False) (Some 1)))
         [\<lparr>name = None, address = 0x80000000, v_address = 0, size_seg = 0x1000\<rparr>]
       = (- EPIPE,
          \<lparr>consumers = 1, readers_left = 0, ramdump_status = - 1, ramdump_complete = 1,
            consumer_list = [\<lparr>entry_id = 1, data_ready = False\<rparr>],
            segments = Some [\<lparr>name = None, address = 0x80000000, v_address = 0, size_seg = 0x1000\<rparr>],
            elfcore_size = 0, elfcore_buf = None, attrs = 0, complete_ramdump = False,
            abort_ramdump = False\<rparr>,
          [\<lparr>name = None, address = 0x80000000, v_address = 0, size_seg = 0x1000\<rparr>])"
proof -
  have frame: "snd (ramdump_open rd_dev (Some p)) =
     rd_dev\<lparr>consumers := consumers rd_dev + 1, ramdump_status := 0,
             consumer_list := consumer_list rd_dev @ [\<lparr>entry_id = p, data_ready = False\<rparr>]\<rparr>"
    by (simp add: ramdump_open_def)
  have rest: "(snd (ramdump_open rd_dev (Some p)))
        \<lparr>consumers := consumers rd_dev, ramdump_status := ramdump_status rd_dev,
          consumer_list := consumer_list rd_dev\<rparr> = rd_dev"
    by (simp add: ramdump_open_def)
  have fail: "ramdump_open rd_dev None = (- ENOMEM, rd_dev)"
    by (simp add: ramdump_open_def)
  show ?thesis
    by (simp only: frame rest fail simp_thms) (simp add: do_ramdump_def dump_eval read_eval)
qed

section \<open>Chunks and offsets of a read\<close>

lemma ramdump_read_in_header:
  assumes "entry_ready d e" and "\<not> abort_ramdump d" and "pos < elfcore_size d"
    and "header_bytes d pos (min (elfcore_size d - pos) count) = Some out"
    and "\<not> hdr_fault env"
  shows "ramdump_read env d e nb count pos =
           (if count - min (elfcore_size d - pos) count = 0
            then Inr \<lparr>ret = sint (min (elfcore_size d - pos) count), dev_after = d,
                      pos_after = pos + min (elfcore_size d - pos) count, user_buf = out\<rparr>
            else read_segment env d e (count - min (elfcore_size d - pos) count)
                   (pos + min (elfcore_size d - pos) count) pos out)"
  using assms by (simp add: ramdump_read_def Let_def)

lemma ramdump_read_past_header:
  assumes "entry_ready d e" and "\<not> abort_ramdump d" and "\<not> pos < elfcore_size d"
  shows "ramdump_read env d e nb count pos = read_segment env d e count pos pos []"
  using assms by (simp add: ramdump_read_def)

lemma copy_from_device_cases:
  "copy_from_device m src c =
     (if src AND 7 \<noteq> 0 \<and> c < 8 - (src AND 7) then Inl BufferOverrun
      else Inr (mem_bytes m src (unat c)))"
proof (cases "src AND 7 \<noteq> 0 \<and> c < 8 - (src AND 7)")
  case True
  then show ?thesis by (simp add: copy_from_device_overrun)
next
  case False
  then have "src AND 7 = 0 \<or> 8 - (src AND 7) \<le> c" by auto
  from copy_from_device_fits [OF this] False show ?thesis by simp
qed

lemma read_segment_cases:
  assumes tr: "offset_translate (p - elfcore_size d) d = (addr, data_left, vaddr)"
    and cs: "cs = min (min c MAX_IOREMAP_SIZE) data_left"
    and dm: "dm = (if vaddr \<noteq> 0 then vaddr else dma_remap env addr cs)"
  shows "read_segment env d e c p orig out =
     (if data_left = 0 then Inr (ramdump_done (d\<lparr>ramdump_status := 0\<rparr>) e 0 out)
      else if dm = 0 \<or> \<not> vzalloc_ok env cs
      then Inr (ramdump_done (d\<lparr>attrs := DMA_ATTR_SKIP_ZEROING env, ramdump_status := - 1\<rparr>) e (- ENOMEM) out)
      else if dm AND 7 \<noteq> 0 \<and> cs < 8 - (dm AND 7) then Inl BufferOverrun
      else if data_fault env
      then Inr (ramdump_done (d\<lparr>attrs := DMA_ATTR_SKIP_ZEROING env, ramdump_status := - 1\<rparr>) e (- EFAULT) out)
      else Inr \<lparr>ret = sint (p + cs - orig), dev_after = d\<lparr>attrs := DMA_ATTR_SKIP_ZEROING env\<rparr>,
                pos_after = p + cs, user_buf = out @ mem_bytes (mem env) dm (unat cs)\<rparr>)"
  using tr
  by (simp add: read_segment_def Let_def cs [symmetric] dm [symmetric] copy_from_device_cases)

lemma ramdump_read_cases:
  assumes ready: "entry_ready d e" and live: "\<not> abort_ramdump d"
    and hdr: "pos < elfcore_size d \<longrightarrow> elfcore_buf d = Some b"
    and h: "h = (if pos < elfcore_size d then min (elfcore_size d - pos) count else 0)"
    and out: "out = (if pos < elfcore_size d then take (unat h) (drop (unat pos) b) else [])"
    and tr: "offset_translate (pos + h - elfcore_size d) d = (addr, data_left, vaddr)"
    and c: "c = min (min (count - h) MAX_IOREMAP_SIZE) data_left"
    and src: "src = (if vaddr \<noteq> 0 then vaddr else dma_remap env addr c)"
  shows "ramdump_read env d e nb count pos =
     (if pos < elfcore_size d \<and> hdr_fault env then Inr (ramdump_done d e (- EFAULT) [])
      else if pos < elfcore_size d \<and> count - h = 0
      then Inr \<lparr>ret = sint h, dev_after = d, pos_after = pos + h, user_buf = out\<rparr>
      else if data_left = 0 then Inr (ramdump_done (d\<lparr>ramdump_status := 0\<rparr>) e 0 out)
      else if src = 0 \<or> \<not> vzalloc_ok env c
      then Inr (ramdump_done (d\<lparr>attrs := DMA_ATTR_SKIP_ZEROING env, ramdump_status := - 1\<rparr>) e (- ENOMEM) out)
      else if src AND 7 \<noteq> 0 \<and> c < 8 - (src AND 7) then Inl BufferOverrun
      else if data_fault env
      then Inr (ramdump_done (d\<lparr>attrs := DMA_ATTR_SKIP_ZEROING env, ramdump_status := - 1\<rparr>) e (- EFAULT) out)
      else Inr \<lparr>ret = sint (pos + h + c - pos), dev_after = d\<lparr>attrs := DMA_ATTR_SKIP_ZEROING env\<rparr>,
                pos_after = pos + h + c, user_buf = out @ mem_bytes (mem env) src (unat c)\<rparr>)"
proof (cases "pos < elfcore_size d")
  case inhdr: True
  with h have h': "h = min (elfcore_size d - pos) count" by simp
  from inhdr out have out': "out = take (unat h) (drop (unat pos) b)" by simp
  from inhdr hdr have "elfcore_buf d = Some b" by simp
  then have hb: "header_bytes d pos (min (elfcore_size d - pos) count) = Some out"
    by (simp add: header_bytes_def out' h')
  show ?thesis
  proof (cases "hdr_fault env")
    case True
    with ready live inhdr hb show ?thesis by (simp add: ramdump_read_def Let_def)
  next
    case False
    note rd = ramdump_read_in_header [OF ready live inhdr hb False, of nb, folded h']
    show ?thesis
    proof (cases "count - h = 0")
      case True
      with rd inhdr False show ?thesis by simp
    next
      case nz: False
      from rd nz have "ramdump_read env d e nb count pos
          = read_segment env d e (count - h) (pos + h) pos out" by simp
      also note read_segment_cases [OF tr c src, of e pos out]
      finally show ?thesis using inhdr False nz by simp
    qed
  qed
next
  case nohdr: False
  with h out have h0: "h = 0" and o0: "out = []" by simp_all
  from tr h0 have tr': "offset_translate (pos - elfcore_size d) d = (addr, data_left, vaddr)" by simp
  from c h0 have c': "c = min (min count MAX_IOREMAP_SIZE) data_left" by simp
  have "ramdump_read env d e nb count pos = read_segment env d e count pos pos []"
    by (rule ramdump_read_past_header [OF ready live nohdr])
  also note read_segment_cases [OF tr' c' src, of e pos "[]"]
  finally show ?thesis using nohdr h0 o0 by simp
qed


lemma offset_translate_loop_spec:
  "offset_translate_loop segs i uo = (j, uo') \<Longrightarrow> i \<le> length segs \<Longrightarrow>
   i \<le> j \<and> j \<le> length segs
   \<and> unat uo = (\<Sum>k = i..<j. unat (size_seg (segs ! k))) + unat uo'
   \<and> (j < length segs \<longrightarrow> unat uo' < unat (size_seg (segs ! j)))
   \<and> (\<forall>m. i \<le> m \<and> m < j \<longrightarrow> (\<Sum>k = i..<Suc m. unat (size_seg (segs ! k))) \<le> unat uo)"
proof (induction segs i uo arbitrary: j uo' rule: offset_translate_loop.induct)
  case (1 segs i uo)
  show ?case
  proof (cases "i < length segs \<and> size_seg (segs ! i) \<le> uo")
    case True
    then have lt: "i < length segs" and le: "size_seg (segs ! i) \<le> uo" by simp_all
    from "1.prems"(1) True
    have rec: "offset_translate_loop segs (i + 1) (uo - size_seg (segs ! i)) = (j, uo')"
      by (subst (asm) offset_translate_loop.simps) simp
    from lt have "i + 1 \<le> length segs" by simp
    note ih = "1.IH" [OF lt le rec this, unfolded Suc_eq_plus1 [symmetric]]
    from ih have ih1: "Suc i \<le> j" and ih2: "j \<le> length segs"
      and ih3: "unat (uo - size_seg (segs ! i)) = (\<Sum>k = Suc i..<j. unat (size_seg (segs ! k))) + unat uo'"
      and ih4: "j < length segs \<longrightarrow> unat uo' < unat (size_seg (segs ! j))"
      and ih5: "\<forall>m. Suc i \<le> m \<and> m < j \<longrightarrow>
                 (\<Sum>k = Suc i..<Suc m. unat (size_seg (segs ! k))) \<le> unat (uo - size_seg (segs ! i))"
      by blast+
    from le have sub: "unat (uo - size_seg (segs ! i)) = unat uo - unat (size_seg (segs ! i))"
      and sle: "unat (size_seg (segs ! i)) \<le> unat uo"
      by (simp_all add: unat_sub word_le_nat_alt)
    from ih1 have "i < j" by simp
    from sum.atLeast_Suc_lessThan [OF this, of "\<lambda>k. unat (size_seg (segs ! k))"]
    have split: "(\<Sum>k = i..<j. unat (size_seg (segs ! k)))
        = unat (size_seg (segs ! i)) + (\<Sum>k = Suc i..<j. unat (size_seg (segs ! k)))" .
    have bound: "(\<Sum>k = i..<Suc m. unat (size_seg (segs ! k))) \<le> unat uo"
      if m: "i \<le> m \<and> m < j" for m
    proof -
      from m have "i < Suc m" by simp
      from sum.atLeast_Suc_lessThan [OF this, of "\<lambda>k. unat (size_seg (segs ! k))"]
      have eq: "(\<Sum>k = i..<Suc m. unat (size_seg (segs ! k)))
          = unat (size_seg (segs ! i)) + (\<Sum>k = Suc i..<Suc m. unat (size_seg (segs ! k)))" .
      show ?thesis
      proof (cases "m = i")
        case True
        have "(\<Sum>k = i..<Suc i. unat (size_seg (segs ! k))) = unat (size_seg (segs ! i))"
          by simp
        with True sle show ?thesis by (simp only:)
      next
        case False
        with m have "Suc i \<le> m \<and> m < j" by simp
        with ih5 have "(\<Sum>k = Suc i..<Suc m. unat (size_seg (segs ! k))) \<le> unat (uo - size_seg (segs ! i))"
          by blast
        with eq sub sle show ?thesis by linarith
      qed
    qed
    have eq: "unat uo = (\<Sum>k = i..<j. unat (size_seg (segs ! k))) + unat uo'"
      using ih3 sub sle split by linarith
    from \<open>i < j\<close> have "i \<le> j" by simp
    with ih2 eq ih4 bound show ?thesis by blast
  next
    case False
    then have "offset_translate_loop segs i uo = (i, uo)"
      by (subst offset_translate_loop.simps) auto
    with "1.prems"(1) have "j = i" "uo' = uo" by simp_all
    with False "1.prems"(2) show ?thesis
      by (auto simp: word_le_nat_alt not_le)
  qed
qed

lemma sum_prefix_mono:
  fixes f :: "nat \<Rightarrow> nat"
  shows "a \<le> b \<Longrightarrow> (\<Sum>k<a. f k) \<le> (\<Sum>k<b. f k)"
  by (rule sum_mono2) auto

lemma offset_translate_end:
  assumes tab: "segments d = Some segs"
    and past: "(\<Sum>k<length segs. unat (size_seg (segs ! k))) \<le> unat uo"
  shows "offset_translate uo d = (0, 0, 0)"
proof -
  obtain j uo' where loop: "offset_translate_loop segs 0 uo = (j, uo')"
    by (cases "offset_translate_loop segs 0 uo")
  note spec = offset_translate_loop_spec [OF loop le0, unfolded atLeast0LessThan]
  from spec have j: "j \<le> length segs"
    and eq: "unat uo = (\<Sum>k<j. unat (size_seg (segs ! k))) + unat uo'"
    and lt: "j < length segs \<longrightarrow> unat uo' < unat (size_seg (segs ! j))"
    by blast+
  have "j = length segs"
  proof (rule ccontr)
    assume "j \<noteq> length segs"
    with j have jl: "j < length segs" by simp
    with lt have "unat uo' < unat (size_seg (segs ! j))" by blast
    with eq have "unat uo < (\<Sum>k<j. unat (size_seg (segs ! k))) + unat (size_seg (segs ! j))"
      by linarith
    then have "unat uo < (\<Sum>k<Suc j. unat (size_seg (segs ! k)))" by simp
    also from jl have "\<dots> \<le> (\<Sum>k<length segs. unat (size_seg (segs ! k)))"
      by (intro sum_prefix_mono) simp
    finally show False using past by simp
  qed
  with loop tab show ?thesis by (simp add: offset_translate_def seg_table_def)
qed

lemma offset_translate_inside:
  assumes tab: "segments d = Some segs"
    and inside: "unat uo < (\<Sum>k<length segs. unat (size_seg (segs ! k)))"
  shows "\<exists>i<length segs.
           unat uo < (\<Sum>k<Suc i. unat (size_seg (segs ! k)))
         \<and> (\<forall>m<i. (\<Sum>k<Suc m. unat (size_seg (segs ! k))) \<le> unat uo)
         \<and> (\<Sum>k<i. unat (size_seg (segs ! k))) \<le> unat uo
         \<and> offset_translate uo d =
             (address (segs ! i) + of_nat (unat uo - (\<Sum>k<i. unat (size_seg (segs ! k)))),
              size_seg (segs ! i) - of_nat (unat uo - (\<Sum>k<i. unat (size_seg (segs ! k)))),
              (if v_address (segs ! i) \<noteq> 0
               then v_address (segs ! i) + of_nat (unat uo - (\<Sum>k<i. unat (size_seg (segs ! k))))
               else 0))"
proof -
  obtain j uo' where loop: "offset_translate_loop segs 0 uo = (j, uo')"
    by (cases "offset_translate_loop segs 0 uo")
  note spec = offset_translate_loop_spec [OF loop le0, unfolded atLeast0LessThan]
  from spec have j: "j \<le> length segs"
    and eq: "unat uo = (\<Sum>k<j. unat (size_seg (segs ! k))) + unat uo'"
    and lt: "j < length segs \<longrightarrow> unat uo' < unat (size_seg (segs ! j))"
    and first: "\<forall>m<j. (\<Sum>k<Suc m. unat (size_seg (segs ! k))) \<le> unat uo"
    by blast+
  have "j \<noteq> length segs"
  proof
    assume "j = length segs"
    with eq have "unat uo = (\<Sum>k<length segs. unat (size_seg (segs ! k))) + unat uo'"
      by (simp only:)
    then have "(\<Sum>k<length segs. unat (size_seg (segs ! k))) \<le> unat uo" by linarith
    with inside show False by simp
  qed
  with j have jl: "j < length segs" by simp
  from eq have "unat uo - (\<Sum>k<j. unat (size_seg (segs ! k))) = unat uo'" by linarith
  then have "uo' = of_nat (unat uo - (\<Sum>k<j. unat (size_seg (segs ! k))))"
    by (simp add: of_nat_unat)
  with loop tab jl have "offset_translate uo d =
             (address (segs ! j) + of_nat (unat uo - (\<Sum>k<j. unat (size_seg (segs ! k)))),
              size_seg (segs ! j) - of_nat (unat uo - (\<Sum>k<j. unat (size_seg (segs ! k)))),
              (if v_address (segs ! j) \<noteq> 0
               then v_address (segs ! j) + of_nat (unat uo - (\<Sum>k<j. unat (size_seg (segs ! k))))
               else 0))"
    by (simp add: offset_translate_def seg_table_def)
  moreover have "unat uo < (\<Sum>k<Suc j. unat (size_seg (segs ! k)))"
  proof -
    from lt jl have "unat uo' < unat (size_seg (segs ! j))" by blast
    with eq have "unat uo < (\<Sum>k<j. unat (size_seg (segs ! k))) + unat (size_seg (segs ! j))"
      by linarith
    then show ?thesis by simp
  qed
  moreover from eq have "(\<Sum>k<j. unat (size_seg (segs ! k))) \<le> unat uo" by linarith
  ultimately show ?thesis using jl first by blast
qed




lemma unat_min: "unat (min a b :: u64) = min (unat a) (unat b)"
  by (simp add: min_def word_le_nat_alt)

lemma unat_header_size:
  assumes "elfcore_size d = of_nat (length hdr)" and "length hdr < 2 ^ 64"
  shows "unat (elfcore_size d) = length hdr"
  using assms by (simp add: unat_of_nat)

lemma read_at_end:
  assumes ready: "entry_ready d e" and live: "\<not> abort_ramdump d"
    and size: "elfcore_size d = of_nat (length hdr)" and small: "length hdr < 2 ^ 64"
    and tab: "segments d = Some segs"
    and past: "length hdr + (\<Sum>k<length segs. unat (size_seg (segs ! k))) \<le> unat pos"
  shows "ramdump_read env d e nb count pos =
           Inr (ramdump_done (d\<lparr>ramdump_status := 0\<rparr>) e 0 [])"
proof -
  have H: "unat (elfcore_size d) = length hdr" by (rule unat_header_size [OF size small])
  with past have ge: "elfcore_size d \<le> pos" by (simp add: word_le_nat_alt)
  then have nohdr: "\<not> pos < elfcore_size d" by simp
  from ge H have "unat (pos - elfcore_size d) = unat pos - length hdr"
    by (simp add: unat_sub)
  with past have "(\<Sum>k<length segs. unat (size_seg (segs ! k))) \<le> unat (pos - elfcore_size d)"
    by simp
  from offset_translate_end [OF tab this]
  have "read_segment env d e count pos pos [] = Inr (ramdump_done (d\<lparr>ramdump_status := 0\<rparr>) e 0 [])"
    by (simp add: read_segment_def)
  with ramdump_read_past_header [OF ready live nohdr] show ?thesis by simp
qed

lemma read_header_only:
  assumes ready: "entry_ready d e" and live: "\<not> abort_ramdump d"
    and buf: "hdr = (case elfcore_buf d of None \<Rightarrow> [] | Some b \<Rightarrow> b)"
    and size: "elfcore_size d = of_nat (length hdr)" and small: "length hdr < 2 ^ 64"
    and nofault: "\<not> hdr_fault env"
    and inside: "unat pos < length hdr"
    and fits: "unat count \<le> length hdr - unat pos"
  shows "ramdump_read env d e nb count pos =
           Inr \<lparr>ret = sint count, dev_after = d, pos_after = pos + count,
                user_buf = take (unat count) (drop (unat pos) hdr)\<rparr>"
proof -
  have H: "unat (elfcore_size d) = length hdr" by (rule unat_header_size [OF size small])
  with inside have inhdr: "pos < elfcore_size d" by (simp add: word_less_nat_alt)
  from inside buf have some: "elfcore_buf d = Some hdr"
    by (cases "elfcore_buf d") auto
  from inhdr H have "unat (elfcore_size d - pos) = length hdr - unat pos"
    by (simp add: unat_sub)
  with fits have "count \<le> elfcore_size d - pos" by (simp add: word_le_nat_alt)
  then have m: "min (elfcore_size d - pos) count = count" by (simp add: min_absorb2)
  from some have hb: "header_bytes d pos (min (elfcore_size d - pos) count)
      = Some (take (unat count) (drop (unat pos) hdr))"
    by (simp add: header_bytes_def m)
  from ramdump_read_in_header [OF ready live inhdr hb nofault, of nb]
  show ?thesis by (simp add: m)
qed

lemma read_into_segment:
  assumes ready: "entry_ready d e" and live: "\<not> abort_ramdump d"
    and buf: "hdr = (case elfcore_buf d of None \<Rightarrow> [] | Some b \<Rightarrow> b)"
    and size: "elfcore_size d = of_nat (length hdr)" and small: "length hdr < 2 ^ 64"
    and tab: "segments d = Some segs"
    and nofault: "\<not> hdr_fault env" "\<not> data_fault env"
    and hn: "hn = length hdr - unat pos"
    and more: "hn < unat count"
    and inside: "unat pos + hn - length hdr < (\<Sum>k<length segs. unat (size_seg (segs ! k)))"
  shows "\<exists>i<length segs.
           unat pos + hn - length hdr < (\<Sum>k<Suc i. unat (size_seg (segs ! k)))
         \<and> (\<forall>m<i. (\<Sum>k<Suc m. unat (size_seg (segs ! k))) \<le> unat pos + hn - length hdr)
         \<and> (let off = unat pos + hn - length hdr - (\<Sum>k<i. unat (size_seg (segs ! k)));
                 c = min (min (count - of_nat hn) MAX_IOREMAP_SIZE) (size_seg (segs ! i) - of_nat off);
                 src = (if v_address (segs ! i) \<noteq> 0 \<and> v_address (segs ! i) + of_nat off \<noteq> 0
                        then v_address (segs ! i) + of_nat off
                        else dma_remap env (address (segs ! i) + of_nat off) c)
             in off < unat (size_seg (segs ! i))
              \<and> 0 < unat c \<and> unat c \<le> unat (size_seg (segs ! i)) - off
              \<and> (src \<noteq> 0 \<and> vzalloc_ok env c \<and> (src AND 7 = 0 \<or> 8 - (src AND 7) \<le> c) \<longrightarrow>
                   ramdump_read env d e nb count pos
                   = Inr \<lparr>ret = sint (of_nat hn + c),
                          dev_after = d\<lparr>attrs := DMA_ATTR_SKIP_ZEROING env\<rparr>,
                          pos_after = pos + (of_nat hn + c),
                          user_buf = drop (unat pos) hdr @ mem_bytes (mem env) src (unat c)\<rparr>))"
proof -
  have H: "unat (elfcore_size d) = length hdr" by (rule unat_header_size [OF size small])
  define h where "h = (if pos < elfcore_size d then min (elfcore_size d - pos) count else 0)"
  define uo where "uo = pos + h - elfcore_size d"
  have hval: "h = of_nat hn \<and> unat h = hn \<and> unat uo = unat pos + hn - length hdr
              \<and> (pos < elfcore_size d \<longrightarrow> elfcore_buf d = Some hdr)"
  proof (cases "pos < elfcore_size d")
    case True
    then have lt: "unat pos < length hdr" using H by (simp add: word_less_nat_alt)
    from True H have sub: "unat (elfcore_size d - pos) = length hdr - unat pos"
      by (simp add: unat_sub)
    with more hn have "elfcore_size d - pos \<le> count" by (simp add: word_le_nat_alt)
    with True have h: "h = elfcore_size d - pos" by (simp add: h_def min_absorb1)
    with sub hn have uh: "unat h = hn" by simp
    from uh [symmetric] have "of_nat hn = h" by simp
    moreover from h have "uo = 0" by (simp add: uo_def)
    moreover from lt buf have "elfcore_buf d = Some hdr" by (cases "elfcore_buf d") auto
    ultimately show ?thesis using uh lt hn by simp
  next
    case False
    then have ge: "elfcore_size d \<le> pos" by simp
    with H have le: "length hdr \<le> unat pos" by (simp add: word_le_nat_alt)
    with hn have hn0: "hn = 0" by simp
    from False have h0: "h = 0" by (simp add: h_def)
    from ge H have "unat (pos - elfcore_size d) = unat pos - length hdr" by (simp add: unat_sub)
    with h0 hn0 False show ?thesis by (simp add: uo_def)
  qed
  then have hw: "h = of_nat hn" and uh: "unat h = hn"
    and uuo: "unat uo = unat pos + hn - length hdr"
    and b1: "pos < elfcore_size d \<longrightarrow> elfcore_buf d = Some hdr"
    by blast+
  from inside uuo have "unat uo < (\<Sum>k<length segs. unat (size_seg (segs ! k)))" by simp
  from offset_translate_inside [OF tab this] obtain i where
    i: "i < length segs"
    and upper: "unat uo < (\<Sum>k<Suc i. unat (size_seg (segs ! k)))"
    and first: "\<forall>m<i. (\<Sum>k<Suc m. unat (size_seg (segs ! k))) \<le> unat uo"
    and lower: "(\<Sum>k<i. unat (size_seg (segs ! k))) \<le> unat uo"
    and tr0: "offset_translate uo d =
             (address (segs ! i) + of_nat (unat uo - (\<Sum>k<i. unat (size_seg (segs ! k)))),
              size_seg (segs ! i) - of_nat (unat uo - (\<Sum>k<i. unat (size_seg (segs ! k)))),
              (if v_address (segs ! i) \<noteq> 0
               then v_address (segs ! i) + of_nat (unat uo - (\<Sum>k<i. unat (size_seg (segs ! k))))
               else 0))"
    by blast
  define off where "off = unat uo - (\<Sum>k<i. unat (size_seg (segs ! k)))"
  define data_left where "data_left = size_seg (segs ! i) - of_nat off"
  define vaddr where "vaddr = (if v_address (segs ! i) \<noteq> 0 then v_address (segs ! i) + of_nat off else 0)"
  define c where "c = min (min (count - h) MAX_IOREMAP_SIZE) data_left"
  define src where "src = (if vaddr \<noteq> 0 then vaddr else dma_remap env (address (segs ! i) + of_nat off) c)"
  define out where "out = (if pos < elfcore_size d then take (unat h) (drop (unat pos) hdr) else [])"
  from tr0 have tr: "offset_translate (pos + h - elfcore_size d) d
                     = (address (segs ! i) + of_nat off, data_left, vaddr)"
    by (simp only: uo_def off_def data_left_def vaddr_def)
  from upper lower have offlt: "off < unat (size_seg (segs ! i))"
    by (simp add: off_def)
  have "unat (size_seg (segs ! i)) < 2 ^ LENGTH(64)" by (rule unsigned_less)
  with offlt have "off < 2 ^ 64" by simp
  then have uoff: "unat (of_nat off :: u64) = off" by (simp add: unat_of_nat)
  with offlt have "(of_nat off :: u64) \<le> size_seg (segs ! i)" by (simp add: word_le_nat_alt)
  then have left: "unat data_left = unat (size_seg (segs ! i)) - off"
    using uoff by (simp add: data_left_def unat_sub)
  with offlt have dl: "data_left \<noteq> 0" by (auto simp: unat_eq_0 [symmetric] simp del: unat_eq_0)
  have hc: "h \<le> count" by (simp add: h_def)
  then have ucnt: "unat (count - h) = unat count - hn" using uh by (simp add: unat_sub)
  with more have cnz: "count - h \<noteq> 0" by (auto simp: unat_eq_0 [symmetric] simp del: unat_eq_0)
  have uc: "unat c = min (min (unat count - hn) 1048576) (unat (size_seg (segs ! i)) - off)"
    by (simp add: c_def unat_min ucnt left MAX_IOREMAP_SIZE_def)
  with more offlt have cpos: "0 < unat c" by simp
  from uc have cleft: "unat c \<le> unat (size_seg (segs ! i)) - off" by simp
  have out_eq: "out = drop (unat pos) hdr"
  proof (cases "pos < elfcore_size d")
    case True
    with uh hn show ?thesis by (simp add: out_def)
  next
    case False
    then have "elfcore_size d \<le> pos" by simp
    with H have "length hdr \<le> unat pos" by (simp add: word_le_nat_alt)
    with False show ?thesis by (simp add: out_def)
  qed
  have srcs: "src = (if v_address (segs ! i) \<noteq> 0 \<and> v_address (segs ! i) + of_nat off \<noteq> 0
                     then v_address (segs ! i) + of_nat off
                     else dma_remap env (address (segs ! i) + of_nat off) c)"
    by (simp add: src_def vaddr_def)
  note rd = ramdump_read_cases [OF ready live b1 h_def out_def tr c_def src_def, of nb]
  have result: "ramdump_read env d e nb count pos
                   = Inr \<lparr>ret = sint (h + c),
                          dev_after = d\<lparr>attrs := DMA_ATTR_SKIP_ZEROING env\<rparr>,
                          pos_after = pos + (h + c),
                          user_buf = drop (unat pos) hdr @ mem_bytes (mem env) src (unat c)\<rparr>"
    if ok: "src \<noteq> 0" "vzalloc_ok env c" "src AND 7 = 0 \<or> 8 - (src AND 7) \<le> c"
  proof -
    from nofault(1) have nA: "\<not> (pos < elfcore_size d \<and> hdr_fault env)" by simp
    from cnz have nB: "\<not> (pos < elfcore_size d \<and> count - h = 0)" by simp
    from dl have nC: "(data_left = 0) = False" by simp
    from ok(1,2) have nD: "\<not> (src = 0 \<or> \<not> vzalloc_ok env c)" by blast
    from ok(3) have nE: "\<not> (src AND 7 \<noteq> 0 \<and> c < 8 - (src AND 7))" by auto
    from nofault(2) have nF: "data_fault env = False" by simp
    have wadd: "pos + h + c - pos = h + c" "pos + h + c = pos + (h + c)" by simp_all
    from rd have "ramdump_read env d e nb count pos
          = Inr \<lparr>ret = sint (pos + h + c - pos), dev_after = d\<lparr>attrs := DMA_ATTR_SKIP_ZEROING env\<rparr>,
               pos_after = pos + h + c, user_buf = out @ mem_bytes (mem env) src (unat c)\<rparr>"
      by (simp only: nA nB nC nD nE nF if_False simp_thms)
    then show ?thesis by (simp add: wadd out_eq)
  qed
  have off_eq: "unat pos + hn - length hdr - (\<Sum>k<i. unat (size_seg (segs ! k))) = off"
    by (simp only: off_def uuo)
  have hw': "(of_nat hn :: u64) = h" by (simp only: hw)
  have c_eq: "min (min (count - h) MAX_IOREMAP_SIZE) (size_seg (segs ! i) - of_nat off) = c"
    by (simp only: c_def data_left_def)
  have body: "off < unat (size_seg (segs ! i))
              \<and> 0 < unat c \<and> unat c \<le> unat (size_seg (segs ! i)) - off
              \<and> (src \<noteq> 0 \<and> vzalloc_ok env c \<and> (src AND 7 = 0 \<or> 8 - (src AND 7) \<le> c) \<longrightarrow>
                   ramdump_read env d e nb count pos
                   = Inr \<lparr>ret = sint (h + c),
                          dev_after = d\<lparr>attrs := DMA_ATTR_SKIP_ZEROING env\<rparr>,
                          pos_after = pos + (h + c),
                          user_buf = drop (unat pos) hdr @ mem_bytes (mem env) src (unat c)\<rparr>)"
    using offlt cpos cleft result by blast
  show ?thesis
  proof (intro exI [of _ i] conjI)
    show "i < length segs" by fact
    show "unat pos + hn - length hdr < (\<Sum>k<Suc i. unat (size_seg (segs ! k)))"
      using upper by (simp only: uuo)
    show "\<forall>m<i. (\<Sum>k<Suc m. unat (size_seg (segs ! k))) \<le> unat pos + hn - length hdr"
      using first by (simp only: uuo)
    show "let off = unat pos + hn - length hdr - (\<Sum>k<i. unat (size_seg (segs ! k)));
                 c = min (min (count - of_nat hn) MAX_IOREMAP_SIZE) (size_seg (segs ! i) - of_nat off);
                 src = (if v_address (segs ! i) \<noteq> 0 \<and> v_address (segs ! i) + of_nat off \<noteq> 0
                        then v_address (segs ! i) + of_nat off
                        else dma_remap env (address (segs ! i) + of_nat off) c)
             in off < unat (size_seg (segs ! i))
              \<and> 0 < unat c \<and> unat c \<le> unat (size_seg (segs ! i)) - off
              \<and> (src \<noteq> 0 \<and> vzalloc_ok env c \<and> (src AND 7 = 0 \<or> 8 - (src AND 7) \<le> c) \<longrightarrow>
                   ramdump_read env d e nb count pos
                   = Inr \<lparr>ret = sint (of_nat hn + c),
                          dev_after = d\<lparr>attrs := DMA_ATTR_SKIP_ZEROING env\<rparr>,
                          pos_after = pos + (of_nat hn + c),
                          user_buf = drop (unat pos) hdr @ mem_bytes (mem env) src (unat c)\<rparr>)"
      unfolding Let_def off_eq hw' c_eq srcs [symmetric] by (rule body)
  qed
qed

text \<open>
  The stream a read indexes. For a consumer whose data is ready, in a session that is
  not aborted, with the header \<open>hdr\<close>, the segment table \<open>segs\<close> and no fault in the
  copies to the caller; \<open>hn\<close> is what is left of the header at \<open>pos\<close> and \<open>so\<close> the
  offset into the segment data of the first segment byte of the call:
  \<^item> a read inside the header of no more than \<open>hn\<close> bytes returns the header bytes
    from \<open>pos\<close> on;
  \<^item> a read of more than \<open>hn\<close> bytes, with segment data at \<open>so\<close>, returns the rest of
    the header (nothing when \<open>pos\<close> is past it) and then the bytes of segment \<open>i\<close> from
    its byte \<open>off\<close> on, where \<open>i\<close> is the first segment such that the sizes up to and
    including it exceed \<open>so\<close>, and \<open>off\<close> is \<open>so\<close> less the sizes before \<open>i\<close>; the
    chunk is not empty, is no more than what is left of that segment, and the call
    returns whenever the mapping and the bounce buffer are obtained and the chunk
    covers the unaligned lead of its source;
  \<^item> a read at or past the end of the stream returns 0 with nothing copied, sets the
    session status to 0 and resets the consumer.
  The witness has a 116-byte header and segments of 10 and 20 bytes: reads inside the
  header, across its end, at segment offsets 5 and 15, and at the end of the stream.
\<close>

theorem read_indexes_stream:
  assumes ready: "entry_ready rd_dev entry" and live: "\<not> abort_ramdump rd_dev"
    and buf: "hdr = (case elfcore_buf rd_dev of None \<Rightarrow> [] | Some b \<Rightarrow> b)"
    and size: "elfcore_size rd_dev = of_nat (length hdr)" and small: "length hdr < 2 ^ 64"
    and tab: "segments rd_dev = Some segs"
    and nofault: "\<not> hdr_fault env" "\<not> data_fault env"
  shows "let hn = length hdr - unat pos;
             so = unat pos + hn - length hdr;
             total = (\<Sum>k<length segs. unat (size_seg (segs ! k)))
         in (unat pos < length hdr \<and> unat count \<le> hn \<longrightarrow>
               ramdump_read env rd_dev entry nonblock count pos
               = Inr \<lparr>ret = sint count, dev_after = rd_dev, pos_after = pos + count,
                      user_buf = take (unat count) (drop (unat pos) hdr)\<rparr>)
          \<and> (hn < unat count \<and> so < total \<longrightarrow>
               (\<exists>i<length segs.
                  so < (\<Sum>k<Suc i. unat (size_seg (segs ! k)))
                \<and> (\<forall>m<i. (\<Sum>k<Suc m. unat (size_seg (segs ! k))) \<le> so)
                \<and> (let off = so - (\<Sum>k<i. unat (size_seg (segs ! k)));
                        c = min (min (count - of_nat hn) MAX_IOREMAP_SIZE) (size_seg (segs ! i) - of_nat off);
                        src = (if v_address (segs ! i) \<noteq> 0 \<and> v_address (segs ! i) + of_nat off \<noteq> 0
                               then v_address (segs ! i) + of_nat off
                               else dma_remap env (address (segs ! i) + of_nat off) c)
                    in off < unat (size_seg (segs ! i))
                     \<and> 0 < unat c \<and> unat c \<le> unat (size_seg (segs ! i)) - off
                     \<and> (src \<noteq> 0 \<and> vzalloc_ok env c \<and> (src AND 7 = 0 \<or> 8 - (src AND 7) \<le> c) \<longrightarrow>
                          ramdump_read env rd_dev entry nonblock count pos
                          = Inr \<lparr>ret = sint (of_nat hn + c),
                                 dev_after = rd_dev\<lparr>attrs := DMA_ATTR_SKIP_ZEROING env\<rparr>,
                                 pos_after = pos + (of_nat hn + c),
                                 user_buf = drop (unat pos) hdr @ mem_bytes (mem env) src (unat c)\<rparr>))))
          \<and> (length hdr + total \<le> unat pos \<longrightarrow>
               ramdump_read env rd_dev entry nonblock count pos
               = Inr (ramdump_done (rd_dev\<lparr>ramdump_status := 0\<rparr>) entry 0 []))"
proof -
  define hn where "hn = length hdr - unat pos"
  define so where "so = unat pos + hn - length hdr"
  define total where "total = (\<Sum>k<length segs. unat (size_seg (segs ! k)))"
  have A: "unat pos < length hdr \<and> unat count \<le> hn \<longrightarrow>
               ramdump_read env rd_dev entry nonblock count pos
               = Inr \<lparr>ret = sint count, dev_after = rd_dev, pos_after = pos + count,
                      user_buf = take (unat count) (drop (unat pos) hdr)\<rparr>"
    using read_header_only [OF ready live buf size small nofault(1), of pos count nonblock]
    by (simp add: hn_def)
  have B: "hn < unat count \<and> so < total \<longrightarrow>
               (\<exists>i<length segs.
                  so < (\<Sum>k<Suc i. unat (size_seg (segs ! k)))
                \<and> (\<forall>m<i. (\<Sum>k<Suc m. unat (size_seg (segs ! k))) \<le> so)
                \<and> (let off = so - (\<Sum>k<i. unat (size_seg (segs ! k)));
                        c = min (min (count - of_nat hn) MAX_IOREMAP_SIZE) (size_seg (segs ! i) - of_nat off);
                        src = (if v_address (segs ! i) \<noteq> 0 \<and> v_address (segs ! i) + of_nat off \<noteq> 0
                               then v_address (segs ! i) + of_nat off
                               else dma_remap env (address (segs ! i) + of_nat off) c)
                    in off < unat (size_seg (segs ! i))
                     \<and> 0 < unat c \<and> unat c \<le> unat (size_seg (segs ! i)) - off
                     \<and> (src \<noteq> 0 \<and> vzalloc_ok env c \<and> (src AND 7 = 0 \<or> 8 - (src AND 7) \<le> c) \<longrightarrow>
                          ramdump_read env rd_dev entry nonblock count pos
                          = Inr \<lparr>ret = sint (of_nat hn + c),
                                 dev_after = rd_dev\<lparr>attrs := DMA_ATTR_SKIP_ZEROING env\<rparr>,
                                 pos_after = pos + (of_nat hn + c),
                                 user_buf = drop (unat pos) hdr @ mem_bytes (mem env) src (unat c)\<rparr>)))"
  proof
    assume "hn < unat count \<and> so < total"
    then have a: "hn < unat count"
      and b: "unat pos + hn - length hdr < (\<Sum>k<length segs. unat (size_seg (segs ! k)))"
      by (simp_all add: so_def total_def)
    from read_into_segment [OF ready live buf size small tab nofault hn_def a b, of nonblock]
    show "\<exists>i<length segs.
                  so < (\<Sum>k<Suc i. unat (size_seg (segs ! k)))
                \<and> (\<forall>m<i. (\<Sum>k<Suc m. unat (size_seg (segs ! k))) \<le> so)
                \<and> (let off = so - (\<Sum>k<i. unat (size_seg (segs ! k)));
                        c = min (min (count - of_nat hn) MAX_IOREMAP_SIZE) (size_seg (segs ! i) - of_nat off);
                        src = (if v_address (segs ! i) \<noteq> 0 \<and> v_address (segs ! i) + of_nat off \<noteq> 0
                               then v_address (segs ! i) + of_nat off
                               else dma_remap env (address (segs ! i) + of_nat off) c)
                    in off < unat (size_seg (segs ! i))
                     \<and> 0 < unat c \<and> unat c \<le> unat (size_seg (segs ! i)) - off
                     \<and> (src \<noteq> 0 \<and> vzalloc_ok env c \<and> (src AND 7 = 0 \<or> 8 - (src AND 7) \<le> c) \<longrightarrow>
                          ramdump_read env rd_dev entry nonblock count pos
                          = Inr \<lparr>ret = sint (of_nat hn + c),
                                 dev_after = rd_dev\<lparr>attrs := DMA_ATTR_SKIP_ZEROING env\<rparr>,
                                 pos_after = pos + (of_nat hn + c),
                                 user_buf = drop (unat pos) hdr @ mem_bytes (mem env) src (unat c)\<rparr>))"
      unfolding so_def .
  qed
  have C: "length hdr + total \<le> unat pos \<longrightarrow>
               ramdump_read env rd_dev entry nonblock count pos
               = Inr (ramdump_done (rd_dev\<lparr>ramdump_status := 0\<rparr>) entry 0 [])"
    using read_at_end [OF ready live size small tab, of pos env nonblock count]
    by (simp add: total_def)
  from A B C show ?thesis
    unfolding Let_def hn_def so_def total_def
    by (intro conjI)
qed

theorem read_indexes_stream_witness:
  "entry_ready
     \<lparr>consumers = 1, readers_left = 1, ramdump_status = - 1, ramdump_complete = 0,
       consumer_list = [\<lparr>entry_id = 1, data_ready = True\<rparr>],
       segments = Some [\<lparr>name = None, address = 0x80000000, v_address = 0x1000, size_seg = 10\<rparr>,
        \<lparr>name = None, address = 0x90000000, v_address = 0x2000, size_seg = 20\<rparr>],
       elfcore_size = 116, elfcore_buf = Some (elf32_core [\<lparr>name = None, address = 0x80000000, v_address = 0x1000, size_seg = 10\<rparr>,
        \<lparr>name = None, address = 0x90000000, v_address = 0x2000, size_seg = 20\<rparr>]), attrs = 0, complete_ramdump = False,
       abort_ramdump = False\<rparr> 1
   \<and> \<not> abort_ramdump
     \<lparr>consumers = 1, readers_left = 1, ramdump_status = - 1, ramdump_complete = 0,
       consumer_list = [\<lparr>entry_id = 1, data_ready = True\<rparr>],
       segments = Some [\<lparr>name = None, address = 0x80000000, v_address = 0x1000, size_seg = 10\<rparr>,
        \<lparr>name = None, address = 0x90000000, v_address = 0x2000, size_seg = 20\<rparr>],
       elfcore_size = 116, elfcore_buf = Some (elf32_core [\<lparr>name = None, address = 0x80000000, v_address = 0x1000, size_seg = 10\<rparr>,
        \<lparr>name = None, address = 0x90000000, v_address = 0x2000, size_seg = 20\<rparr>]), attrs = 0, complete_ramdump = False,
       abort_ramdump = False\<rparr>
   \<and> (elf32_core [\<lparr>name = None, address = 0x80000000, v_address = 0x1000, size_seg = 10\<rparr>,
        \<lparr>name = None, address = 0x90000000, v_address = 0x2000, size_seg = 20\<rparr>]) = (case elfcore_buf
     \<lparr>consumers = 1, readers_left = 1, ramdump_status = - 1, ramdump_complete = 0,
       consumer_list = [\<lparr>entry_id = 1, data_ready = True\<rparr>],
       segments = Some [\<lparr>name = None, address = 0x80000000, v_address = 0x1000, size_seg = 10\<rparr>,
        \<lparr>name = None, address = 0x90000000, v_address = 0x2000, size_seg = 20\<rparr>],
       elfcore_size = 116, elfcore_buf = Some (elf32_core [\<lparr>name = None, address = 0x80000000, v_address = 0x1000, size_seg = 10\<rparr>,
        \<lparr>name = None, address = 0x90000000, v_address = 0x2000, size_seg = 20\<rparr>]), attrs = 0, complete_ramdump = False,
       abort_ramdump = False\<rparr>
     of None \<Rightarrow> [] | Some b \<Rightarrow> b)
   \<and> elfcore_size
     \<lparr>consumers = 1, readers_left = 1, ramdump_status = - 1, ramdump_complete = 0,
       consumer_list = [\<lparr>entry_id = 1, data_ready = True\<rparr>],
       segments = Some [\<lparr>name = None, address = 0x80000000, v_address = 0x1000, size_seg = 10\<rparr>,
        \<lparr>name = None, address = 0x90000000, v_address = 0x2000, size_seg = 20\<rparr>],
       elfcore_size = 116, elfcore_buf = Some (elf32_core [\<lparr>name = None, address = 0x80000000, v_address = 0x1000, size_seg = 10\<rparr>,
        \<lparr>name = None, address = 0x90000000, v_address = 0x2000, size_seg = 20\<rparr>]), attrs = 0, complete_ramdump = False,
       abort_ramdump = False\<rparr>
     = of_nat (length (elf32_core [\<lparr>name = None, address = 0x80000000, v_address = 0x1000, size_seg = 10\<rparr>,
        \<lparr>name = None, address = 0x90000000, v_address = 0x2000, size_seg = 20\<rparr>]))
   \<and> length (elf32_core [\<lparr>name = None, address = 0x80000000, v_address = 0x1000, size_seg = 10\<rparr>,
        \<lparr>name = None, address = 0x90000000, v_address = 0x2000, size_seg = 20\<rparr>]) < 2 ^ 64
   \<and> segments
     \<lparr>consumers = 1, readers_left = 1, ramdump_status = - 1, ramdump_complete = 0,
       consumer_list = [\<lparr>entry_id = 1, data_ready = True\<rparr>],
       segments = Some [\<lparr>name = None, address = 0x80000000, v_address = 0x1000, size_seg = 10\<rparr>,
        \<lparr>name = None, address = 0x90000000, v_address = 0x2000, size_seg = 20\<rparr>],
       elfcore_size = 116, elfcore_buf = Some (elf32_core [\<lparr>name = None, address = 0x80000000, v_address = 0x1000, size_seg = 10\<rparr>,
        \<lparr>name = None, address = 0x90000000, v_address = 0x2000, size_seg = 20\<rparr>]), attrs = 0, complete_ramdump = False,
       abort_ramdump = False\<rparr>
     = Some [\<lparr>name = None, address = 0x80000000, v_address = 0x1000, size_seg = 10\<rparr>,
        \<lparr>name = None, address = 0x90000000, v_address = 0x2000, size_seg = 20\<rparr>]
   \<and> \<not> hdr_fault \<lparr>signal_pending = False, dma_remap = (\<lambda>a n. a), mem = (\<lambda>a. ucast a),
       vzalloc_ok = (\<lambda>n. True), hdr_fault = False, data_fault = False,
       DMA_ATTR_SKIP_ZEROING = 0\<rparr>
   \<and> \<not> data_fault \<lparr>signal_pending = False, dma_remap = (\<lambda>a n. a), mem = (\<lambda>a. ucast a),
       vzalloc_ok = (\<lambda>n. True), hdr_fault = False, data_fault = False,
       DMA_ATTR_SKIP_ZEROING = 0\<rparr>
   \<and> ramdump_read
        \<lparr>signal_pending = False, dma_remap = (\<lambda>a n. a), mem = (\<lambda>a. ucast a),
       vzalloc_ok = (\<lambda>n. True), hdr_fault = False, data_fault = False,
       DMA_ATTR_SKIP_ZEROING = 0\<rparr>
        \<lparr>consumers = 1, readers_left = 1, ramdump_status = - 1, ramdump_complete = 0,
       consumer_list = [\<lparr>entry_id = 1, data_ready = True\<rparr>],
       segments = Some [\<lparr>name = None, address = 0x80000000, v_address = 0x1000, size_seg = 10\<rparr>,
        \<lparr>name = None, address = 0x90000000, v_address = 0x2000, size_seg = 20\<rparr>],
       elfcore_size = 116, elfcore_buf = Some (elf32_core [\<lparr>name = None, address = 0x80000000, v_address = 0x1000, size_seg = 10\<rparr>,
        \<lparr>name = None, address = 0x90000000, v_address = 0x2000, size_seg = 20\<rparr>]), attrs = 0, complete_ramdump = False,
       abort_ramdump = False\<rparr>
        1 False 8 100
      = Inr \<lparr>ret = 8, dev_after =
     \<lparr>consumers = 1, readers_left = 1, ramdump_status = - 1, ramdump_complete = 0,
       consumer_list = [\<lparr>entry_id = 1, data_ready = True\<rparr>],
       segments = Some [\<lparr>name = None, address = 0x80000000, v_address = 0x1000, size_seg = 10\<rparr>,
        \<lparr>name = None, address = 0x90000000, v_address = 0x2000, size_seg = 20\<rparr>],
       elfcore_size = 116, elfcore_buf = Some (elf32_core [\<lparr>name = None, address = 0x80000000, v_address = 0x1000, size_seg = 10\<rparr>,
        \<lparr>name = None, address = 0x90000000, v_address = 0x2000, size_seg = 20\<rparr>]), attrs = 0, complete_ramdump = False,
       abort_ramdump = False\<rparr>,
             pos_after = 108, user_buf = take 8 (drop 100 (elf32_core [\<lparr>name = None, address = 0x80000000, v_address = 0x1000, size_seg = 10\<rparr>,
        \<lparr>name = None, address = 0x90000000, v_address = 0x2000, size_seg = 20\<rparr>]))\<rparr>
   \<and> ramdump_read
        \<lparr>signal_pending = False, dma_remap = (\<lambda>a n. a), mem = (\<lambda>a. ucast a),
       vzalloc_ok = (\<lambda>n. True), hdr_fault = False, data_fault = False,
       DMA_ATTR_SKIP_ZEROING = 0\<rparr>
        \<lparr>consumers = 1, readers_left = 1, ramdump_status = - 1, ramdump_complete = 0,
       consumer_list = [\<lparr>entry_id = 1, data_ready = True\<rparr>],
       segments = Some [\<lparr>name = None, address = 0x80000000, v_address = 0x1000, size_seg = 10\<rparr>,
        \<lparr>name = None, address = 0x90000000, v_address = 0x2000, size_seg = 20\<rparr>],
       elfcore_size = 116, elfcore_buf = Some (elf32_core [\<lparr>name = None, address = 0x80000000, v_address = 0x1000, size_seg = 10\<rparr>,
        \<lparr>name = None, address = 0x90000000, v_address = 0x2000, size_seg = 20\<rparr>]), attrs = 0, complete_ramdump = False,
       abort_ramdump = False\<rparr>
        1 False 100 110
      = Inr \<lparr>ret = 16, dev_after =
     \<lparr>consumers = 1, readers_left = 1, ramdump_status = - 1, ramdump_complete = 0,
       consumer_list = [\<lparr>entry_id = 1, data_ready = True\<rparr>],
       segments = Some [\<lparr>name = None, address = 0x80000000, v_address = 0x1000, size_seg = 10\<rparr>,
        \<lparr>name = None, address = 0x90000000, v_address = 0x2000, size_seg = 20\<rparr>],
       elfcore_size = 116, elfcore_buf = Some (elf32_core [\<lparr>name = None, address = 0x80000000, v_address = 0x1000, size_seg = 10\<rparr>,
        \<lparr>name = None, address = 0x90000000, v_address = 0x2000, size_seg = 20\<rparr>]), attrs = 0, complete_ramdump = False,
       abort_ramdump = False\<rparr>,
             pos_after = 126,
             user_buf = drop 110 (elf32_core [\<lparr>name = None, address = 0x80000000, v_address = 0x1000, size_seg = 10\<rparr>,
        \<lparr>name = None, address = 0x90000000, v_address = 0x2000, size_seg = 20\<rparr>]) @ mem_bytes (\<lambda>a. ucast a) 0x1000 10\<rparr>
   \<and> ramdump_read
        \<lparr>signal_pending = False, dma_remap = (\<lambda>a n. a), mem = (\<lambda>a. ucast a),
       vzalloc_ok = (\<lambda>n. True), hdr_fault = False, data_fault = False,
       DMA_ATTR_SKIP_ZEROING = 0\<rparr>
        \<lparr>consumers = 1, readers_left = 1, ramdump_status = - 1, ramdump_complete = 0,
       consumer_list = [\<lparr>entry_id = 1, data_ready = True\<rparr>],
       segments = Some [\<lparr>name = None, address = 0x80000000, v_address = 0x1000, size_seg = 10\<rparr>,
        \<lparr>name = None, address = 0x90000000, v_address = 0x2000, size_seg = 20\<rparr>],
       elfcore_size = 116, elfcore_buf = Some (elf32_core [\<lparr>name = None, address = 0x80000000, v_address = 0x1000, size_seg = 10\<rparr>,
        \<lparr>name = None, address = 0x90000000, v_address = 0x2000, size_seg = 20\<rparr>]), attrs = 0, complete_ramdump = False,
       abort_ramdump = False\<rparr>
        1 False 100 121
      = Inr \<lparr>ret = 5, dev_after =
     \<lparr>consumers = 1, readers_left = 1, ramdump_status = - 1, ramdump_complete = 0,
       consumer_list = [\<lparr>entry_id = 1, data_ready = True\<rparr>],
       segments = Some [\<lparr>name = None, address = 0x80000000, v_address = 0x1000, size_seg = 10\<rparr>,
        \<lparr>name = None, address = 0x90000000, v_address = 0x2000, size_seg = 20\<rparr>],
       elfcore_size = 116, elfcore_buf = Some (elf32_core [\<lparr>name = None, address = 0x80000000, v_address = 0x1000, size_seg = 10\<rparr>,
        \<lparr>name = None, address = 0x90000000, v_address = 0x2000, size_seg = 20\<rparr>]), attrs = 0, complete_ramdump = False,
       abort_ramdump = False\<rparr>,
             pos_after = 126, user_buf = mem_bytes (\<lambda>a. ucast a) 0x1005 5\<rparr>
   \<and> ramdump_read
        \<lparr>signal_pending = False, dma_remap = (\<lambda>a n. a), mem = (\<lambda>a. ucast a),
       vzalloc_ok = (\<lambda>n. True), hdr_fault = False, data_fault = False,
       DMA_ATTR_SKIP_ZEROING = 0\<rparr>
        \<lparr>consumers = 1, readers_left = 1, ramdump_status = - 1, ramdump_complete = 0,
       consumer_list = [\<lparr>entry_id = 1, data_ready = True\<rparr>],
       segments = Some [\<lparr>name = None, address = 0x80000000, v_address = 0x1000, size_seg = 10\<rparr>,
        \<lparr>name = None, address = 0x90000000, v_address = 0x2000, size_seg = 20\<rparr>],
       elfcore_size = 116, elfcore_buf = Some (elf32_core [\<lparr>name = None, address = 0x80000000, v_address = 0x1000, size_seg = 10\<rparr>,
        \<lparr>name = None, address = 0x90000000, v_address = 0x2000, size_seg = 20\<rparr>]), attrs = 0, complete_ramdump = False,
       abort_ramdump = False\<rparr>
        1 False 100 131
      = Inr \<lparr>ret = 15, dev_after =
     \<lparr>consumers = 1, readers_left = 1, ramdump_status = - 1, ramdump_complete = 0,
       consumer_list = [\<lparr>entry_id = 1, data_ready = True\<rparr>],
       segments = Some [\<lparr>name = None, address = 0x80000000, v_address = 0x1000, size_seg = 10\<rparr>,
        \<lparr>name = None, address = 0x90000000, v_address = 0x2000, size_seg = 20\<rparr>],
       elfcore_size = 116, elfcore_buf = Some (elf32_core [\<lparr>name = None, address = 0x80000000, v_address = 0x1000, size_seg = 10\<rparr>,
        \<lparr>name = None, address = 0x90000000, v_address = 0x2000, size_seg = 20\<rparr>]), attrs = 0, complete_ramdump = False,
       abort_ramdump = False\<rparr>,
             pos_after = 146, user_buf = mem_bytes (\<lambda>a. ucast a) 0x2005 15\<rparr>
   \<and> ramdump_read
        \<lparr>signal_pending = False, dma_remap = (\<lambda>a n. a), mem = (\<lambda>a. ucast a),
       vzalloc_ok = (\<lambda>n. True), hdr_fault = False, data_fault = False,
       DMA_ATTR_SKIP_ZEROING = 0\<rparr>
        \<lparr>consumers = 1, readers_left = 1, ramdump_status = - 1, ramdump_complete = 0,
       consumer_list = [\<lparr>entry_id = 1, data_ready = True\<rparr>],
       segments = Some [\<lparr>name = None, address = 0x80000000, v_address = 0x1000, size_seg = 10\<rparr>,
        \<lparr>name = None, address = 0x90000000, v_address = 0x2000, size_seg = 20\<rparr>],
       elfcore_size = 116, elfcore_buf = Some (elf32_core [\<lparr>name = None, address = 0x80000000, v_address = 0x1000, size_seg = 10\<rparr>,
        \<lparr>name = None, address = 0x90000000, v_address = 0x2000, size_seg = 20\<rparr>]), attrs = 0, complete_ramdump = False,
       abort_ramdump = False\<rparr>
        1 False 100 146
      = Inr \<lparr>ret = 0, dev_after =
     \<lparr>consumers = 1, readers_left = 0, ramdump_status = 0, ramdump_complete = 1,
       consumer_list = [\<lparr>entry_id = 1, data_ready = False\<rparr>],
       segments = Some [\<lparr>name = None, address = 0x80000000, v_address = 0x1000, size_seg = 10\<rparr>,
        \<lparr>name = None, address = 0x90000000, v_address = 0x2000, size_seg = 20\<rparr>],
       elfcore_size = 116, elfcore_buf = Some (elf32_core [\<lparr>name = None, address = 0x80000000, v_address = 0x1000, size_seg = 10\<rparr>,
        \<lparr>name = None, address = 0x90000000, v_address = 0x2000, size_seg = 20\<rparr>]), attrs = 0, complete_ramdump = False,
       abort_ramdump = False\<rparr>,
             pos_after = 0, user_buf = []\<rparr>"
proof -
  have len: "length (elf32_core [\<lparr>name = None, address = 0x80000000, v_address = 0x1000, size_seg = 10\<rparr>,
        \<lparr>name = None, address = 0x90000000, v_address = 0x2000, size_seg = 20\<rparr>]) = 116"
    by (simp add: length_elf32_core sizeof_Elf32_Ehdr_def sizeof_Elf32_Phdr_def)
  have ready: "entry_ready
     \<lparr>consumers = 1, readers_left = 1, ramdump_status = - 1, ramdump_complete = 0,
       consumer_list = [\<lparr>entry_id = 1, data_ready = True\<rparr>],
       segments = Some [\<lparr>name = None, address = 0x80000000, v_address = 0x1000, size_seg = 10\<rparr>,
        \<lparr>name = None, address = 0x90000000, v_address = 0x2000, size_seg = 20\<rparr>],
       elfcore_size = 116, elfcore_buf = Some (elf32_core [\<lparr>name = None, address = 0x80000000, v_address = 0x1000, size_seg = 10\<rparr>,
        \<lparr>name = None, address = 0x90000000, v_address = 0x2000, size_seg = 20\<rparr>]), attrs = 0, complete_ramdump = False,
       abort_ramdump = False\<rparr> 1"
    by (simp add: entry_ready_def)
  have live: "\<not> abort_ramdump
     \<lparr>consumers = 1, readers_left = 1, ramdump_status = - 1, ramdump_complete = 0,
       consumer_list = [\<lparr>entry_id = 1, data_ready = True\<rparr>],
       segments = Some [\<lparr>name = None, address = 0x80000000, v_address = 0x1000, size_seg = 10\<rparr>,
        \<lparr>name = None, address = 0x90000000, v_address = 0x2000, size_seg = 20\<rparr>],
       elfcore_size = 116, elfcore_buf = Some (elf32_core [\<lparr>name = None, address = 0x80000000, v_address = 0x1000, size_seg = 10\<rparr>,
        \<lparr>name = None, address = 0x90000000, v_address = 0x2000, size_seg = 20\<rparr>]), attrs = 0, complete_ramdump = False,
       abort_ramdump = False\<rparr>"
    by simp
  have buf: "(elf32_core [\<lparr>name = None, address = 0x80000000, v_address = 0x1000, size_seg = 10\<rparr>,
        \<lparr>name = None, address = 0x90000000, v_address = 0x2000, size_seg = 20\<rparr>]) = (case elfcore_buf
     \<lparr>consumers = 1, readers_left = 1, ramdump_status = - 1, ramdump_complete = 0,
       consumer_list = [\<lparr>entry_id = 1, data_ready = True\<rparr>],
       segments = Some [\<lparr>name = None, address = 0x80000000, v_address = 0x1000, size_seg = 10\<rparr>,
        \<lparr>name = None, address = 0x90000000, v_address = 0x2000, size_seg = 20\<rparr>],
       elfcore_size = 116, elfcore_buf = Some (elf32_core [\<lparr>name = None, address = 0x80000000, v_address = 0x1000, size_seg = 10\<rparr>,
        \<lparr>name = None, address = 0x90000000, v_address = 0x2000, size_seg = 20\<rparr>]), attrs = 0, complete_ramdump = False,
       abort_ramdump = False\<rparr>
     of None \<Rightarrow> [] | Some b \<Rightarrow> b)"
    by simp
  have size: "elfcore_size
     \<lparr>consumers = 1, readers_left = 1, ramdump_status = - 1, ramdump_complete = 0,
       consumer_list = [\<lparr>entry_id = 1, data_ready = True\<rparr>],
       segments = Some [\<lparr>name = None, address = 0x80000000, v_address = 0x1000, size_seg = 10\<rparr>,
        \<lparr>name = None, address = 0x90000000, v_address = 0x2000, size_seg = 20\<rparr>],
       elfcore_size = 116, elfcore_buf = Some (elf32_core [\<lparr>name = None, address = 0x80000000, v_address = 0x1000, size_seg = 10\<rparr>,
        \<lparr>name = None, address = 0x90000000, v_address = 0x2000, size_seg = 20\<rparr>]), attrs = 0, complete_ramdump = False,
       abort_ramdump = False\<rparr>
     = of_nat (length (elf32_core [\<lparr>name = None, address = 0x80000000, v_address = 0x1000, size_seg = 10\<rparr>,
        \<lparr>name = None, address = 0x90000000, v_address = 0x2000, size_seg = 20\<rparr>]))"
    by (simp add: len)
  have small: "length (elf32_core [\<lparr>name = None, address = 0x80000000, v_address = 0x1000, size_seg = 10\<rparr>,
        \<lparr>name = None, address = 0x90000000, v_address = 0x2000, size_seg = 20\<rparr>]) < 2 ^ 64"
    by (simp add: len)
  have tab: "segments
     \<lparr>consumers = 1, readers_left = 1, ramdump_status = - 1, ramdump_complete = 0,
       consumer_list = [\<lparr>entry_id = 1, data_ready = True\<rparr>],
       segments = Some [\<lparr>name = None, address = 0x80000000, v_address = 0x1000, size_seg = 10\<rparr>,
        \<lparr>name = None, address = 0x90000000, v_address = 0x2000, size_seg = 20\<rparr>],
       elfcore_size = 116, elfcore_buf = Some (elf32_core [\<lparr>name = None, address = 0x80000000, v_address = 0x1000, size_seg = 10\<rparr>,
        \<lparr>name = None, address = 0x90000000, v_address = 0x2000, size_seg = 20\<rparr>]), attrs = 0, complete_ramdump = False,
       abort_ramdump = False\<rparr>
     = Some [\<lparr>name = None, address = 0x80000000, v_address = 0x1000, size_seg = 10\<rparr>,
        \<lparr>name = None, address = 0x90000000, v_address = 0x2000, size_seg = 20\<rparr>]"
    by simp
  have nf1: "\<not> hdr_fault \<lparr>signal_pending = False, dma_remap = (\<lambda>a n. a), mem = (\<lambda>a. ucast a),
       vzalloc_ok = (\<lambda>n. True), hdr_fault = False, data_fault = False,
       DMA_ATTR_SKIP_ZEROING = 0\<rparr>"
    by simp
  have nf2: "\<not> data_fault \<lparr>signal_pending = False, dma_remap = (\<lambda>a n. a), mem = (\<lambda>a. ucast a),
       vzalloc_ok = (\<lambda>n. True), hdr_fault = False, data_fault = False,
       DMA_ATTR_SKIP_ZEROING = 0\<rparr>"
    by simp
  have ex2: "(\<exists>i<Suc (Suc 0). P i) = (P 0 \<or> P (Suc 0))" for P :: "nat \<Rightarrow> bool"
    by (auto simp: less_Suc_eq)
  note th = read_indexes_stream [OF ready live buf size small tab nf1 nf2, where nonblock = False]
  from th [where pos = 100 and count = 8]
  have r_h: "ramdump_read
        \<lparr>signal_pending = False, dma_remap = (\<lambda>a n. a), mem = (\<lambda>a. ucast a),
       vzalloc_ok = (\<lambda>n. True), hdr_fault = False, data_fault = False,
       DMA_ATTR_SKIP_ZEROING = 0\<rparr>
        \<lparr>consumers = 1, readers_left = 1, ramdump_status = - 1, ramdump_complete = 0,
       consumer_list = [\<lparr>entry_id = 1, data_ready = True\<rparr>],
       segments = Some [\<lparr>name = None, address = 0x80000000, v_address = 0x1000, size_seg = 10\<rparr>,
        \<lparr>name = None, address = 0x90000000, v_address = 0x2000, size_seg = 20\<rparr>],
       elfcore_size = 116, elfcore_buf = Some (elf32_core [\<lparr>name = None, address = 0x80000000, v_address = 0x1000, size_seg = 10\<rparr>,
        \<lparr>name = None, address = 0x90000000, v_address = 0x2000, size_seg = 20\<rparr>]), attrs = 0, complete_ramdump = False,
       abort_ramdump = False\<rparr>
        1 False 8 100
      = Inr \<lparr>ret = 8, dev_after =
     \<lparr>consumers = 1, readers_left = 1, ramdump_status = - 1, ramdump_complete = 0,
       consumer_list = [\<lparr>entry_id = 1, data_ready = True\<rparr>],
       segments = Some [\<lparr>name = None, address = 0x80000000, v_address = 0x1000, size_seg = 10\<rparr>,
        \<lparr>name = None, address = 0x90000000, v_address = 0x2000, size_seg = 20\<rparr>],
       elfcore_size = 116, elfcore_buf = Some (elf32_core [\<lparr>name = None, address = 0x80000000, v_address = 0x1000, size_seg = 10\<rparr>,
        \<lparr>name = None, address = 0x90000000, v_address = 0x2000, size_seg = 20\<rparr>]), attrs = 0, complete_ramdump = False,
       abort_ramdump = False\<rparr>,
             pos_after = 108, user_buf = take 8 (drop 100 (elf32_core [\<lparr>name = None, address = 0x80000000, v_address = 0x1000, size_seg = 10\<rparr>,
        \<lparr>name = None, address = 0x90000000, v_address = 0x2000, size_seg = 20\<rparr>]))\<rparr>"
    by (simp add: Let_def len)
  from th [where pos = 146 and count = 100]
  have r_30: "ramdump_read
        \<lparr>signal_pending = False, dma_remap = (\<lambda>a n. a), mem = (\<lambda>a. ucast a),
       vzalloc_ok = (\<lambda>n. True), hdr_fault = False, data_fault = False,
       DMA_ATTR_SKIP_ZEROING = 0\<rparr>
        \<lparr>consumers = 1, readers_left = 1, ramdump_status = - 1, ramdump_complete = 0,
       consumer_list = [\<lparr>entry_id = 1, data_ready = True\<rparr>],
       segments = Some [\<lparr>name = None, address = 0x80000000, v_address = 0x1000, size_seg = 10\<rparr>,
        \<lparr>name = None, address = 0x90000000, v_address = 0x2000, size_seg = 20\<rparr>],
       elfcore_size = 116, elfcore_buf = Some (elf32_core [\<lparr>name = None, address = 0x80000000, v_address = 0x1000, size_seg = 10\<rparr>,
        \<lparr>name = None, address = 0x90000000, v_address = 0x2000, size_seg = 20\<rparr>]), attrs = 0, complete_ramdump = False,
       abort_ramdump = False\<rparr>
        1 False 100 146
      = Inr \<lparr>ret = 0, dev_after =
     \<lparr>consumers = 1, readers_left = 0, ramdump_status = 0, ramdump_complete = 1,
       consumer_list = [\<lparr>entry_id = 1, data_ready = False\<rparr>],
       segments = Some [\<lparr>name = None, address = 0x80000000, v_address = 0x1000, size_seg = 10\<rparr>,
        \<lparr>name = None, address = 0x90000000, v_address = 0x2000, size_seg = 20\<rparr>],
       elfcore_size = 116, elfcore_buf = Some (elf32_core [\<lparr>name = None, address = 0x80000000, v_address = 0x1000, size_seg = 10\<rparr>,
        \<lparr>name = None, address = 0x90000000, v_address = 0x2000, size_seg = 20\<rparr>]), attrs = 0, complete_ramdump = False,
       abort_ramdump = False\<rparr>,
             pos_after = 0, user_buf = []\<rparr>"
    by (simp add: Let_def len lessThan_Suc ramdump_done_def reset_ramdump_entry_def clear_ready_def)
  from th [where pos = 110 and count = 100]
  have r_hs: "ramdump_read
        \<lparr>signal_pending = False, dma_remap = (\<lambda>a n. a), mem = (\<lambda>a. ucast a),
       vzalloc_ok = (\<lambda>n. True), hdr_fault = False, data_fault = False,
       DMA_ATTR_SKIP_ZEROING = 0\<rparr>
        \<lparr>consumers = 1, readers_left = 1, ramdump_status = - 1, ramdump_complete = 0,
       consumer_list = [\<lparr>entry_id = 1, data_ready = True\<rparr>],
       segments = Some [\<lparr>name = None, address = 0x80000000, v_address = 0x1000, size_seg = 10\<rparr>,
        \<lparr>name = None, address = 0x90000000, v_address = 0x2000, size_seg = 20\<rparr>],
       elfcore_size = 116, elfcore_buf = Some (elf32_core [\<lparr>name = None, address = 0x80000000, v_address = 0x1000, size_seg = 10\<rparr>,
        \<lparr>name = None, address = 0x90000000, v_address = 0x2000, size_seg = 20\<rparr>]), attrs = 0, complete_ramdump = False,
       abort_ramdump = False\<rparr>
        1 False 100 110
      = Inr \<lparr>ret = 16, dev_after =
     \<lparr>consumers = 1, readers_left = 1, ramdump_status = - 1, ramdump_complete = 0,
       consumer_list = [\<lparr>entry_id = 1, data_ready = True\<rparr>],
       segments = Some [\<lparr>name = None, address = 0x80000000, v_address = 0x1000, size_seg = 10\<rparr>,
        \<lparr>name = None, address = 0x90000000, v_address = 0x2000, size_seg = 20\<rparr>],
       elfcore_size = 116, elfcore_buf = Some (elf32_core [\<lparr>name = None, address = 0x80000000, v_address = 0x1000, size_seg = 10\<rparr>,
        \<lparr>name = None, address = 0x90000000, v_address = 0x2000, size_seg = 20\<rparr>]), attrs = 0, complete_ramdump = False,
       abort_ramdump = False\<rparr>,
             pos_after = 126,
             user_buf = drop 110 (elf32_core [\<lparr>name = None, address = 0x80000000, v_address = 0x1000, size_seg = 10\<rparr>,
        \<lparr>name = None, address = 0x90000000, v_address = 0x2000, size_seg = 20\<rparr>]) @ mem_bytes (\<lambda>a. ucast a) 0x1000 10\<rparr>"
    by (simp add: Let_def len lessThan_Suc ex2 MAX_IOREMAP_SIZE_def)
  from th [where pos = 121 and count = 100]
  have r_5: "ramdump_read
        \<lparr>signal_pending = False, dma_remap = (\<lambda>a n. a), mem = (\<lambda>a. ucast a),
       vzalloc_ok = (\<lambda>n. True), hdr_fault = False, data_fault = False,
       DMA_ATTR_SKIP_ZEROING = 0\<rparr>
        \<lparr>consumers = 1, readers_left = 1, ramdump_status = - 1, ramdump_complete = 0,
       consumer_list = [\<lparr>entry_id = 1, data_ready = True\<rparr>],
       segments = Some [\<lparr>name = None, address = 0x80000000, v_address = 0x1000, size_seg = 10\<rparr>,
        \<lparr>name = None, address = 0x90000000, v_address = 0x2000, size_seg = 20\<rparr>],
       elfcore_size = 116, elfcore_buf = Some (elf32_core [\<lparr>name = None, address = 0x80000000, v_address = 0x1000, size_seg = 10\<rparr>,
        \<lparr>name = None, address = 0x90000000, v_address = 0x2000, size_seg = 20\<rparr>]), attrs = 0, complete_ramdump = False,
       abort_ramdump = False\<rparr>
        1 False 100 121
      = Inr \<lparr>ret = 5, dev_after =
     \<lparr>consumers = 1, readers_left = 1, ramdump_status = - 1, ramdump_complete = 0,
       consumer_list = [\<lparr>entry_id = 1, data_ready = True\<rparr>],
       segments = Some [\<lparr>name = None, address = 0x80000000, v_address = 0x1000, size_seg = 10\<rparr>,
        \<lparr>name = None, address = 0x90000000, v_address = 0x2000, size_seg = 20\<rparr>],
       elfcore_size = 116, elfcore_buf = Some (elf32_core [\<lparr>name = None, address = 0x80000000, v_address = 0x1000, size_seg = 10\<rparr>,
        \<lparr>name = None, address = 0x90000000, v_address = 0x2000, size_seg = 20\<rparr>]), attrs = 0, complete_ramdump = False,
       abort_ramdump = False\<rparr>,
             pos_after = 126, user_buf = mem_bytes (\<lambda>a. ucast a) 0x1005 5\<rparr>"
    by (simp add: Let_def len lessThan_Suc ex2 MAX_IOREMAP_SIZE_def)
  from th [where pos = 131 and count = 100]
  have r_15: "ramdump_read
        \<lparr>signal_pending = False, dma_remap = (\<lambda>a n. a), mem = (\<lambda>a. ucast a),
       vzalloc_ok = (\<lambda>n. True), hdr_fault = False, data_fault = False,
       DMA_ATTR_SKIP_ZEROING = 0\<rparr>
        \<lparr>consumers = 1, readers_left = 1, ramdump_status = - 1, ramdump_complete = 0,
       consumer_list = [\<lparr>entry_id = 1, data_ready = True\<rparr>],
       segments = Some [\<lparr>name = None, address = 0x80000000, v_address = 0x1000, size_seg = 10\<rparr>,
        \<lparr>name = None, address = 0x90000000, v_address = 0x2000, size_seg = 20\<rparr>],
       elfcore_size = 116, elfcore_buf = Some (elf32_core [\<lparr>name = None, address = 0x80000000, v_address = 0x1000, size_seg = 10\<rparr>,
        \<lparr>name = None, address = 0x90000000, v_address = 0x2000, size_seg = 20\<rparr>]), attrs = 0, complete_ramdump = False,
       abort_ramdump = False\<rparr>
        1 False 100 131
      = Inr \<lparr>ret = 15, dev_after =
     \<lparr>consumers = 1, readers_left = 1, ramdump_status = - 1, ramdump_complete = 0,
       consumer_list = [\<lparr>entry_id = 1, data_ready = True\<rparr>],
       segments = Some [\<lparr>name = None, address = 0x80000000, v_address = 0x1000, size_seg = 10\<rparr>,
        \<lparr>name = None, address = 0x90000000, v_address = 0x2000, size_seg = 20\<rparr>],
       elfcore_size = 116, elfcore_buf = Some (elf32_core [\<lparr>name = None, address = 0x80000000, v_address = 0x1000, size_seg = 10\<rparr>,
        \<lparr>name = None, address = 0x90000000, v_address = 0x2000, size_seg = 20\<rparr>]), attrs = 0, complete_ramdump = False,
       abort_ramdump = False\<rparr>,
             pos_after = 146, user_buf = mem_bytes (\<lambda>a. ucast a) 0x2005 15\<rparr>"
    by (simp add: Let_def len lessThan_Suc ex2 MAX_IOREMAP_SIZE_def)
  from ready live buf size small tab nf1 nf2 r_h r_hs r_5 r_15 r_30 show ?thesis
    by (intro conjI)
qed

text \<open>
  C2 (a read at offset \<open>o\<close> indexes the stream of the header bytes followed by the
  segments: header bytes for \<open>o\<close> inside the header, end of stream only for \<open>o\<close> at
  or past the end). A read that starts inside the header and asks for more than is
  left of it goes on to the segments, and the end-of-stream exit of \<open>ramdump_read\<close>
  returns 0 and rewinds \<open>*pos\<close> whatever the header copy has done, while the exit after
  a chunk returns \<open>*pos - orig_pos\<close>, which counts the header bytes. So when no segment
  holds data (no segment, or sizes 0), every such read copies the rest of the header
  into the caller's buffer, then reports the end of the stream, puts the position back
  to 0 and resets the consumer: the bytes from \<open>o\<close> on are never reported as read.
  The witness: a 52-byte header and no segment; a read of 100 bytes at offset 40
  returns 0, a read of 12 bytes at the same offset returns the 12 bytes.
\<close>

theorem read_across_header_end_returns_zero:
  assumes ready: "entry_ready rd_dev entry" and live: "\<not> abort_ramdump rd_dev"
    and buf: "elfcore_buf rd_dev = Some b" and len: "length b = unat (elfcore_size rd_dev)"
    and tab: "segments rd_dev = Some segs"
    and empty: "(\<Sum>k<length segs. unat (size_seg (segs ! k))) = 0"
    and inside: "pos < elfcore_size rd_dev"
    and more: "elfcore_size rd_dev - pos < count"
    and nofault: "\<not> hdr_fault env"
  shows "ramdump_read env rd_dev entry nonblock count pos =
           Inr \<lparr>ret = 0, dev_after = reset_ramdump_entry entry (rd_dev\<lparr>ramdump_status := 0\<rparr>),
                pos_after = 0, user_buf = drop (unat pos) b\<rparr>
         \<and> length (drop (unat pos) b) = unat (elfcore_size rd_dev) - unat pos
         \<and> 0 < unat (elfcore_size rd_dev) - unat pos"
proof -
  define h where "h = (if pos < elfcore_size rd_dev then min (elfcore_size rd_dev - pos) count else 0)"
  from more have "elfcore_size rd_dev - pos \<le> count" by simp
  with inside have h: "h = elfcore_size rd_dev - pos" by (simp add: h_def min_absorb1)
  then have z: "pos + h - elfcore_size rd_dev = 0" by simp
  from empty have "(\<Sum>k<length segs. unat (size_seg (segs ! k))) \<le> unat (0 :: u64)" by simp
  from offset_translate_end [OF tab this]
  have tr: "offset_translate (pos + h - elfcore_size rd_dev) rd_dev = (0, 0, 0)"
    by (simp only: z)
  from inside have "pos \<le> elfcore_size rd_dev" by simp
  then have hu: "unat h = unat (elfcore_size rd_dev) - unat pos"
    by (simp add: h unat_sub)
  from inside have lt: "unat pos < unat (elfcore_size rd_dev)"
    by (simp add: word_less_nat_alt)
  from more h have nz: "count - h \<noteq> 0" by auto
  from buf have b1: "pos < elfcore_size rd_dev \<longrightarrow> elfcore_buf rd_dev = Some b" by simp
  note rd = ramdump_read_cases [OF ready live b1 h_def refl tr refl refl, of env nonblock]
  from inside nofault have nA: "\<not> (pos < elfcore_size rd_dev \<and> hdr_fault env)" by simp
  from nz have nB: "\<not> (pos < elfcore_size rd_dev \<and> count - h = 0)" by simp
  from rd have "ramdump_read env rd_dev entry nonblock count pos
      = Inr (ramdump_done (rd_dev\<lparr>ramdump_status := 0\<rparr>) entry 0
               (if pos < elfcore_size rd_dev then take (unat h) (drop (unat pos) b) else []))"
    by (simp only: nA nB if_False if_True simp_thms)
  moreover have "take (unat h) (drop (unat pos) b) = drop (unat pos) b"
    using hu len by simp
  ultimately show ?thesis using inside lt len
    by (simp add: ramdump_done_def)
qed

theorem read_across_header_end_returns_zero_witness:
  "entry_ready
     \<lparr>consumers = 1, readers_left = 1, ramdump_status = - 1, ramdump_complete = 0,
       consumer_list = [\<lparr>entry_id = 1, data_ready = True\<rparr>],
       segments = Some [],
       elfcore_size = 52, elfcore_buf = Some (elf32_core []), attrs = 0, complete_ramdump = False,
       abort_ramdump = False\<rparr> 1
   \<and> \<not> abort_ramdump
     \<lparr>consumers = 1, readers_left = 1, ramdump_status = - 1, ramdump_complete = 0,
       consumer_list = [\<lparr>entry_id = 1, data_ready = True\<rparr>],
       segments = Some [],
       elfcore_size = 52, elfcore_buf = Some (elf32_core []), attrs = 0, complete_ramdump = False,
       abort_ramdump = False\<rparr>
   \<and> length (elf32_core []) = unat (elfcore_size
     \<lparr>consumers = 1, readers_left = 1, ramdump_status = - 1, ramdump_complete = 0,
       consumer_list = [\<lparr>entry_id = 1, data_ready = True\<rparr>],
       segments = Some [],
       elfcore_size = 52, elfcore_buf = Some (elf32_core []), attrs = 0, complete_ramdump = False,
       abort_ramdump = False\<rparr>)
   \<and> (\<Sum>k<length ([] :: ramdump_segment list). unat (size_seg ([] ! k))) = 0
   \<and> (40 :: u64) < elfcore_size
     \<lparr>consumers = 1, readers_left = 1, ramdump_status = - 1, ramdump_complete = 0,
       consumer_list = [\<lparr>entry_id = 1, data_ready = True\<rparr>],
       segments = Some [],
       elfcore_size = 52, elfcore_buf = Some (elf32_core []), attrs = 0, complete_ramdump = False,
       abort_ramdump = False\<rparr>
   \<and> elfcore_size
     \<lparr>consumers = 1, readers_left = 1, ramdump_status = - 1, ramdump_complete = 0,
       consumer_list = [\<lparr>entry_id = 1, data_ready = True\<rparr>],
       segments = Some [],
       elfcore_size = 52, elfcore_buf = Some (elf32_core []), attrs = 0, complete_ramdump = False,
       abort_ramdump = False\<rparr> - 40 < (100 :: u64)
   \<and> ramdump_read
        \<lparr>signal_pending = False, dma_remap = (\<lambda>a n. a), mem = (\<lambda>a. ucast a),
       vzalloc_ok = (\<lambda>n. True), hdr_fault = False, data_fault = False,
       DMA_ATTR_SKIP_ZEROING = 0\<rparr>
        \<lparr>consumers = 1, readers_left = 1, ramdump_status = - 1, ramdump_complete = 0,
       consumer_list = [\<lparr>entry_id = 1, data_ready = True\<rparr>],
       segments = Some [],
       elfcore_size = 52, elfcore_buf = Some (elf32_core []), attrs = 0, complete_ramdump = False,
       abort_ramdump = False\<rparr>
        1 False 100 40
      = Inr \<lparr>ret = 0,
             dev_after =
     \<lparr>consumers = 1, readers_left = 0, ramdump_status = 0, ramdump_complete = 1,
       consumer_list = [\<lparr>entry_id = 1, data_ready = False\<rparr>],
       segments = Some [],
       elfcore_size = 52, elfcore_buf = Some (elf32_core []), attrs = 0, complete_ramdump = False,
       abort_ramdump = False\<rparr>,
             pos_after = 0, user_buf = drop 40 (elf32_core [])\<rparr>
   \<and> length (drop 40 (elf32_core [])) = 12
   \<and> ramdump_read
        \<lparr>signal_pending = False, dma_remap = (\<lambda>a n. a), mem = (\<lambda>a. ucast a),
       vzalloc_ok = (\<lambda>n. True), hdr_fault = False, data_fault = False,
       DMA_ATTR_SKIP_ZEROING = 0\<rparr>
        \<lparr>consumers = 1, readers_left = 1, ramdump_status = - 1, ramdump_complete = 0,
       consumer_list = [\<lparr>entry_id = 1, data_ready = True\<rparr>],
       segments = Some [],
       elfcore_size = 52, elfcore_buf = Some (elf32_core []), attrs = 0, complete_ramdump = False,
       abort_ramdump = False\<rparr>
        1 False 12 40
      = Inr \<lparr>ret = 12,
             dev_after =
     \<lparr>consumers = 1, readers_left = 1, ramdump_status = - 1, ramdump_complete = 0,
       consumer_list = [\<lparr>entry_id = 1, data_ready = True\<rparr>],
       segments = Some [],
       elfcore_size = 52, elfcore_buf = Some (elf32_core []), attrs = 0, complete_ramdump = False,
       abort_ramdump = False\<rparr>,
             pos_after = 52, user_buf = drop 40 (elf32_core [])\<rparr>"
proof -
  have ready: "entry_ready
     \<lparr>consumers = 1, readers_left = 1, ramdump_status = - 1, ramdump_complete = 0,
       consumer_list = [\<lparr>entry_id = 1, data_ready = True\<rparr>],
       segments = Some [],
       elfcore_size = 52, elfcore_buf = Some (elf32_core []), attrs = 0, complete_ramdump = False,
       abort_ramdump = False\<rparr> 1"
    by (simp add: entry_ready_def)
  have live: "\<not> abort_ramdump
     \<lparr>consumers = 1, readers_left = 1, ramdump_status = - 1, ramdump_complete = 0,
       consumer_list = [\<lparr>entry_id = 1, data_ready = True\<rparr>],
       segments = Some [],
       elfcore_size = 52, elfcore_buf = Some (elf32_core []), attrs = 0, complete_ramdump = False,
       abort_ramdump = False\<rparr>"
    by simp
  have buf: "elfcore_buf
     \<lparr>consumers = 1, readers_left = 1, ramdump_status = - 1, ramdump_complete = 0,
       consumer_list = [\<lparr>entry_id = 1, data_ready = True\<rparr>],
       segments = Some [],
       elfcore_size = 52, elfcore_buf = Some (elf32_core []), attrs = 0, complete_ramdump = False,
       abort_ramdump = False\<rparr> = Some (elf32_core [])"
    by simp
  have len: "length (elf32_core []) = unat (elfcore_size
     \<lparr>consumers = 1, readers_left = 1, ramdump_status = - 1, ramdump_complete = 0,
       consumer_list = [\<lparr>entry_id = 1, data_ready = True\<rparr>],
       segments = Some [],
       elfcore_size = 52, elfcore_buf = Some (elf32_core []), attrs = 0, complete_ramdump = False,
       abort_ramdump = False\<rparr>)"
    by (simp add: length_elf32_core sizeof_Elf32_Ehdr_def sizeof_Elf32_Phdr_def)
  have tab: "segments
     \<lparr>consumers = 1, readers_left = 1, ramdump_status = - 1, ramdump_complete = 0,
       consumer_list = [\<lparr>entry_id = 1, data_ready = True\<rparr>],
       segments = Some [],
       elfcore_size = 52, elfcore_buf = Some (elf32_core []), attrs = 0, complete_ramdump = False,
       abort_ramdump = False\<rparr> = Some []"
    by simp
  have empty: "(\<Sum>k<length ([] :: ramdump_segment list). unat (size_seg ([] ! k))) = 0"
    by simp
  have inside: "(40 :: u64) < elfcore_size
     \<lparr>consumers = 1, readers_left = 1, ramdump_status = - 1, ramdump_complete = 0,
       consumer_list = [\<lparr>entry_id = 1, data_ready = True\<rparr>],
       segments = Some [],
       elfcore_size = 52, elfcore_buf = Some (elf32_core []), attrs = 0, complete_ramdump = False,
       abort_ramdump = False\<rparr>"
    by simp
  have more: "elfcore_size
     \<lparr>consumers = 1, readers_left = 1, ramdump_status = - 1, ramdump_complete = 0,
       consumer_list = [\<lparr>entry_id = 1, data_ready = True\<rparr>],
       segments = Some [],
       elfcore_size = 52, elfcore_buf = Some (elf32_core []), attrs = 0, complete_ramdump = False,
       abort_ramdump = False\<rparr> - 40 < (100 :: u64)"
    by simp
  have nofault: "\<not> hdr_fault \<lparr>signal_pending = False, dma_remap = (\<lambda>a n. a), mem = (\<lambda>a. ucast a),
       vzalloc_ok = (\<lambda>n. True), hdr_fault = False, data_fault = False,
       DMA_ATTR_SKIP_ZEROING = 0\<rparr>"
    by simp
  from read_across_header_end_returns_zero [OF ready live buf len tab empty inside more nofault,
      where nonblock = False]
  have lost: "ramdump_read
        \<lparr>signal_pending = False, dma_remap = (\<lambda>a n. a), mem = (\<lambda>a. ucast a),
       vzalloc_ok = (\<lambda>n. True), hdr_fault = False, data_fault = False,
       DMA_ATTR_SKIP_ZEROING = 0\<rparr>
        \<lparr>consumers = 1, readers_left = 1, ramdump_status = - 1, ramdump_complete = 0,
       consumer_list = [\<lparr>entry_id = 1, data_ready = True\<rparr>],
       segments = Some [],
       elfcore_size = 52, elfcore_buf = Some (elf32_core []), attrs = 0, complete_ramdump = False,
       abort_ramdump = False\<rparr>
        1 False 100 40
      = Inr \<lparr>ret = 0,
             dev_after =
     \<lparr>consumers = 1, readers_left = 0, ramdump_status = 0, ramdump_complete = 1,
       consumer_list = [\<lparr>entry_id = 1, data_ready = False\<rparr>],
       segments = Some [],
       elfcore_size = 52, elfcore_buf = Some (elf32_core []), attrs = 0, complete_ramdump = False,
       abort_ramdump = False\<rparr>,
             pos_after = 0, user_buf = drop 40 (elf32_core [])\<rparr>"
    by (simp add: reset_ramdump_entry_def clear_ready_def)
  have l12: "length (drop 40 (elf32_core [])) = 12"
    by (simp add: length_elf32_core sizeof_Elf32_Ehdr_def sizeof_Elf32_Phdr_def)
  have fits: "ramdump_read
        \<lparr>signal_pending = False, dma_remap = (\<lambda>a n. a), mem = (\<lambda>a. ucast a),
       vzalloc_ok = (\<lambda>n. True), hdr_fault = False, data_fault = False,
       DMA_ATTR_SKIP_ZEROING = 0\<rparr>
        \<lparr>consumers = 1, readers_left = 1, ramdump_status = - 1, ramdump_complete = 0,
       consumer_list = [\<lparr>entry_id = 1, data_ready = True\<rparr>],
       segments = Some [],
       elfcore_size = 52, elfcore_buf = Some (elf32_core []), attrs = 0, complete_ramdump = False,
       abort_ramdump = False\<rparr>
        1 False 12 40
      = Inr \<lparr>ret = 12,
             dev_after =
     \<lparr>consumers = 1, readers_left = 1, ramdump_status = - 1, ramdump_complete = 0,
       consumer_list = [\<lparr>entry_id = 1, data_ready = True\<rparr>],
       segments = Some [],
       elfcore_size = 52, elfcore_buf = Some (elf32_core []), attrs = 0, complete_ramdump = False,
       abort_ramdump = False\<rparr>,
             pos_after = 52, user_buf = drop 40 (elf32_core [])\<rparr>"
    using l12 by (simp add: read_eval)
  from ready live len empty inside more lost l12 fits show ?thesis by (intro conjI)
qed

section \<open>The string table of a minidump\<close>

text \<open>
  C4 (the string table entries are packed with no gaps, a name longer than 15 bytes is
  stored as 15 characters and a NUL, and \<open>sh_name\<close> resolves to the stored name).
  \<open>set_section_name\<close> advances the index by the value \<open>strlcpy\<close> returns, which is the
  length of the whole name, not of what was stored. For the names
  \<open>abcdefghijklmnopqrst\<close> (20 characters) and \<open>b\<close>: the first is stored at offset 9 as
  15 characters and a NUL, which ends at offset 24, and both names resolve; but the
  second entry is put at offset 30, not 25, and five bytes stay unused between them.
\<close>

theorem minidump_long_name_leaves_gap:
  "snd (snd (set_section_name (Some s) strtab idx)) = idx + length (c_chars s) + 1
   \<and> (case minidump_tables
          [\<lparr>name = Some ''abcdefghijklmnopqrst'', address = 0x1000, v_address = 0, size_seg = 16\<rparr>,
           \<lparr>name = Some ''b'', address = 0x2000, v_address = 0, size_seg = 16\<rparr>] of
        Inl f \<Rightarrow> None
      | Inr (shdrs, strtab) \<Rightarrow>
          Some (map sh_name shdrs, take 32 strtab,
                map (\<lambda>sh. c_string_at strtab (unat (sh_name sh))) shdrs))
     = Some ([0, 1, 9, 30],
             [0] @ c_chars ''STR_TBL'' @ [0] @ c_chars ''abcdefghijklmno'' @ [0]
               @ [0, 0, 0, 0, 0] @ c_chars ''b'' @ [0],
             [[], c_chars ''STR_TBL'', c_chars ''abcdefghijklmno'', c_chars ''b''])"
  by (simp add: minidump_tables_def set_section_name_def strlcpy_def write_at_def c_chars_def
      MAX_NAME_LENGTH_def MAX_STRTBL_SIZE_def zero_shdr_def c_string_at_def Let_def
      sizeof_elfhdr_def sizeof_elf_shdr_def minidump_size_def)

end
